theory Spec2Isabelle
  imports Main
begin

section \<open>Values exchanged with clients\<close>

text \<open>
  Event payloads are JavaScript values decoded from JSON (binary attachments are left
  out). The handlers of \<^verbatim>\<open>socketService.js\<close> read properties of them, test them for
  truthiness, compare them with string literals (\<^verbatim>\<open>===\<close>) and splice them into
  template literals. A number is held as the text that \<^verbatim>\<open>ToString\<close> gives it, which
  is all a handler can observe of it. An object is a list of its own properties, each
  key once. A \<^verbatim>\<open>new Date()\<close> in an emitted payload is the text of the clock reading,
  passed to the handler as \<open>now\<close>.
\<close>

datatype json =
    JUndefined
  | JNull
  | JBool bool
  | JNum string
  | JStr string
  | JArr "json list"
  | JObj "(string \<times> json) list"

datatype error = TypeError

fun truthy :: "json \<Rightarrow> bool" where
  "truthy JUndefined = False"
| "truthy JNull = False"
| "truthy (JBool b) = b"
| "truthy (JNum t) = (t \<noteq> ''0'' \<and> t \<noteq> ''NaN'')"
| "truthy (JStr s) = (s \<noteq> [])"
| "truthy (JArr xs) = True"
| "truthy (JObj kvs) = True"

fun nullish :: "json \<Rightarrow> bool" where
  "nullish JUndefined = True"
| "nullish JNull = True"
| "nullish v = False"

text \<open>
  \<open>to_str v\<close> is the conversion a template literal applies to \<^verbatim>\<open>${v}\<close>. An array is
  joined with commas, an \<^verbatim>\<open>undefined\<close> or \<^verbatim>\<open>null\<close> element printing as nothing. A
  plain object prints as \<^verbatim>\<open>[object Object]\<close> through the inherited \<^verbatim>\<open>toString\<close>;
  when it has an own property \<^verbatim>\<open>toString\<close>, which decoded from JSON is never a
  function, neither that nor \<^verbatim>\<open>valueOf\<close> yields a primitive and the conversion
  throws a TypeError.
\<close>

fun to_str :: "json \<Rightarrow> error + string"
  and join_elems :: "json list \<Rightarrow> error + string" where
  "to_str JUndefined = Inr ''undefined''"
| "to_str JNull = Inr ''null''"
| "to_str (JBool b) = Inr (if b then ''true'' else ''false'')"
| "to_str (JNum t) = Inr t"
| "to_str (JStr s) = Inr s"
| "to_str (JArr xs) = join_elems xs"
| "to_str (JObj kvs) =
     (if ''toString'' \<in> fst ` set kvs then Inl TypeError else Inr ''[object Object]'')"
| "join_elems [] = Inr []"
| "join_elems (x # xs) =
     (case (if nullish x then Inr [] else to_str x) of
        Inl err \<Rightarrow> Inl err
      | Inr s \<Rightarrow>
          (if xs = [] then Inr s
           else (case join_elems xs of
                   Inl err \<Rightarrow> Inl err
                 | Inr r \<Rightarrow> Inr (s @ '','' @ r))))"

text \<open>\<open>field d k\<close> is the property read \<^verbatim>\<open>d.k\<close> on a value that is neither
  \<^verbatim>\<open>undefined\<close> nor \<^verbatim>\<open>null\<close> (on those the read throws, which each handler below
  writes out as \<open>Inl TypeError\<close>), for the property names the handlers read and the
  ones they write; none of these is a name that a prototype defines, so only an
  object's own properties answer.\<close>

fun field :: "json \<Rightarrow> string \<Rightarrow> json" where
  "field (JObj kvs) k = (case map_of kvs k of Some v \<Rightarrow> v | None \<Rightarrow> JUndefined)"
| "field v k = JUndefined"

section \<open>The external store\<close>

text \<open>
  The documents the socket service reads. A user is a document of the model the
  service requires (\<^verbatim>\<open>models/User.js\<close>): \<^verbatim>\<open>role\<close>, \<^verbatim>\<open>department\<close>, and
  \<^verbatim>\<open>enrolledCourses\<close>, a list of subdocuments \<^verbatim>\<open>{course, enrollmentDate, status}\<close>.
  A course has the fields the service reads and queries: \<^verbatim>\<open>teacher\<close> (required by
  its schema) and \<^verbatim>\<open>enrolledStudents\<close>, a list of user ids. Ids are the strings that
  \<^verbatim>\<open>toString()\<close> and template literals make of ObjectIds.

  Two things of the object-document mapper are taken as given with the store:
  \<open>cast\<close>, the ObjectId (as its text) that the mapper makes of a string handed to a
  query, \<open>None\<close> when it rejects the string, in which case the query throws before
  it reaches the store; and \<open>inspect\<close>, the text that a subdocument's \<^verbatim>\<open>toString()\<close>
  prints. A query either answers or throws (\<open>Threw\<close>); every query of the service sits
  in a \<^verbatim>\<open>try\<close> block.
\<close>

datatype role = Student | Teacher | Admin

fun role_str :: "role \<Rightarrow> string" where
  "role_str Student = ''student''"
| "role_str Teacher = ''teacher''"
| "role_str Admin = ''admin''"

record enrollment =
  enrolled_course :: string
  enrollmentDate :: string
  enrollment_status :: string

record user_doc =
  user_id :: string
  firstName :: string
  lastName :: string
  role :: role
  department :: "string option"
  enrolledCourses :: "enrollment list"
  isActive :: bool

record course_doc =
  course_id :: string
  course_name :: string
  teacher :: string
  enrolledStudents :: "string list"

record store =
  users :: "user_doc list"
  courses :: "course_doc list"
  reachable :: bool
  cast :: "string \<Rightarrow> string option"
  inspect :: "enrollment \<Rightarrow> string"

datatype 'a reply = Threw | Reply 'a

text \<open>The three filters \<^verbatim>\<open>joinCourseRooms\<close> passes to \<^verbatim>\<open>Course.find\<close>:
  \<^verbatim>\<open>{enrolledStudents: id}\<close>, \<^verbatim>\<open>{$or: [{teacher: id}, {enrolledStudents: id}]}\<close>
  and \<^verbatim>\<open>{}\<close>. The ids in a filter are cast before the query runs.\<close>

datatype course_filter = EnrolledStudents string | TeacherOrEnrolled string | Everything

fun cast_filter :: "store \<Rightarrow> course_filter \<Rightarrow> course_filter option" where
  "cast_filter db (EnrolledStudents u) = map_option EnrolledStudents (cast db u)"
| "cast_filter db (TeacherOrEnrolled u) = map_option TeacherOrEnrolled (cast db u)"
| "cast_filter db Everything = Some Everything"

fun matches :: "course_filter \<Rightarrow> course_doc \<Rightarrow> bool" where
  "matches (EnrolledStudents u) c = (u \<in> set (enrolledStudents c))"
| "matches (TeacherOrEnrolled u) c = (teacher c = u \<or> u \<in> set (enrolledStudents c))"
| "matches Everything c = True"

definition Course_find :: "store \<Rightarrow> course_filter \<Rightarrow> course_doc list reply" where
  "Course_find db q =
     (if reachable db
      then (case cast_filter db q of
              None \<Rightarrow> Threw
            | Some q' \<Rightarrow> Reply (filter (matches q') (courses db)))
      else Threw)"

definition Course_findById :: "store \<Rightarrow> string \<Rightarrow> course_doc option reply" where
  "Course_findById db cid =
     (if reachable db
      then (case cast db cid of
              None \<Rightarrow> Threw
            | Some i \<Rightarrow> Reply (find (\<lambda>c. course_id c = i) (courses db)))
      else Threw)"

definition User_findById :: "store \<Rightarrow> string \<Rightarrow> user_doc option reply" where
  "User_findById db uid =
     (if reachable db
      then (case cast db uid of
              None \<Rightarrow> Threw
            | Some i \<Rightarrow> Reply (find (\<lambda>u. user_id u = i) (users db)))
      else Threw)"

text \<open>The usual cast: a string of 24 hexadecimal digits is the ObjectId it spells, in
  lower case; the example store below casts so.\<close>

fun lower_hex :: "char \<Rightarrow> char" where
  "lower_hex c =
     (if c = CHR ''A'' then CHR ''a'' else if c = CHR ''B'' then CHR ''b''
      else if c = CHR ''C'' then CHR ''c'' else if c = CHR ''D'' then CHR ''d''
      else if c = CHR ''E'' then CHR ''e'' else if c = CHR ''F'' then CHR ''f'' else c)"

definition hex_object_id :: "string \<Rightarrow> string option" where
  "hex_object_id s =
     (if length s = 24 \<and> list_all (\<lambda>c. c \<in> set ''0123456789abcdefABCDEF'') s
      then Some (map lower_hex s) else None)"

section \<open>Connections, rooms and emissions\<close>

text \<open>
  A socket as the authentication middleware leaves it: \<^verbatim>\<open>socket.id\<close>,
  \<^verbatim>\<open>socket.userId\<close> and \<^verbatim>\<open>socket.user\<close>.
\<close>

record socket =
  sock_id :: string
  userId :: string
  user :: user_doc

text \<open>
  An emission is one call of \<^verbatim>\<open>emit\<close>: \<^verbatim>\<open>socket.emit\<close> (to the socket itself),
  \<^verbatim>\<open>socket.to(room).emit\<close> (to the room, the sender excepted), \<^verbatim>\<open>io.to(room).emit\<close>
  and \<^verbatim>\<open>io.emit\<close> (to every connection).
\<close>

datatype target = ToSocket string | ToRoomExcept string string | ToRoom string | ToAll

type_synonym emission = "target \<times> string \<times> json"

text \<open>
  The state is the two module-level maps of the service, \<^verbatim>\<open>connectedUsers\<close>
  (userId to socketId) and \<^verbatim>\<open>userSockets\<close> (socketId to userId), and what the
  transport holds: the live sockets, the rooms each socket id was subscribed to by
  \<^verbatim>\<open>socket.join\<close>, and what has been delivered to each socket id, in order.
\<close>

record state =
  connectedUsers :: "string \<rightharpoonup> string"
  userSockets :: "string \<rightharpoonup> string"
  sockets :: "socket list"
  rooms :: "string \<Rightarrow> string set"
  inbox :: "string \<Rightarrow> (string \<times> json) list"

definition init :: state where
  "init = \<lparr>connectedUsers = Map.empty, userSockets = Map.empty, sockets = [],
           rooms = (\<lambda>_. {}), inbox = (\<lambda>_. [])\<rparr>"

definition live :: "state \<Rightarrow> string \<Rightarrow> bool" where
  "live st sid = (sid \<in> sock_id ` set (sockets st))"

definition join :: "socket \<Rightarrow> string \<Rightarrow> state \<Rightarrow> state" where
  "join s r st = st\<lparr>rooms := (rooms st)(sock_id s := insert r (rooms st (sock_id s)))\<rparr>"

definition leave :: "socket \<Rightarrow> string \<Rightarrow> state \<Rightarrow> state" where
  "leave s r st = st\<lparr>rooms := (rooms st)(sock_id s := rooms st (sock_id s) - {r})\<rparr>"

fun receives :: "state \<Rightarrow> target \<Rightarrow> string \<Rightarrow> bool" where
  "receives st (ToSocket s) sid = (live st sid \<and> sid = s)"
| "receives st (ToRoomExcept s r) sid = (live st sid \<and> sid \<noteq> s \<and> r \<in> rooms st sid)"
| "receives st (ToRoom r) sid = (live st sid \<and> r \<in> rooms st sid)"
| "receives st ToAll sid = live st sid"

definition deliver1 :: "emission \<Rightarrow> state \<Rightarrow> state" where
  "deliver1 em st =
     st\<lparr>inbox := (\<lambda>sid. if receives st (fst em) sid then inbox st sid @ [snd em]
                          else inbox st sid)\<rparr>"

definition deliver :: "emission list \<Rightarrow> state \<Rightarrow> state" where
  "deliver ems st = fold deliver1 ems st"

text \<open>The transport's own part of connecting and closing: the socket enters the set
  of live sockets with no room joined, and leaves every room when it closes.\<close>

definition transport_open :: "socket \<Rightarrow> state \<Rightarrow> state" where
  "transport_open s st = st\<lparr>sockets := sockets st @ [s], rooms := (rooms st)(sock_id s := {})\<rparr>"

definition transport_close :: "socket \<Rightarrow> state \<Rightarrow> state" where
  "transport_close s st =
     st\<lparr>sockets := filter (\<lambda>x. sock_id x \<noteq> sock_id s) (sockets st),
        rooms := (rooms st)(sock_id s := {})\<rparr>"

section \<open>The socket service\<close>

fun present :: "string option \<Rightarrow> bool" where
  "present None = False"
| "present (Some d) = (d \<noteq> [])"

definition full_name :: "socket \<Rightarrow> string" where
  "full_name s = firstName (user s) @ '' '' @ lastName (user s)"

definition user_obj :: "socket \<Rightarrow> json" where
  "user_obj s = JObj [(''id'', JStr (userId s)), (''name'', JStr (full_name s)),
                      (''role'', JStr (role_str (role (user s))))]"

definition isUserOnline :: "state \<Rightarrow> string \<Rightarrow> bool" where
  "isUserOnline st uid = (connectedUsers st uid \<noteq> None)"

definition liveConnections :: "state \<Rightarrow> string \<Rightarrow> socket list" where
  "liveConnections st uid = filter (\<lambda>s. userId s = uid) (sockets st)"

definition joinCourseRooms :: "store \<Rightarrow> socket \<Rightarrow> state \<Rightarrow> state" where
  "joinCourseRooms db s st =
     (case (case role (user s) of
              Student \<Rightarrow> Course_find db (EnrolledStudents (userId s))
            | Teacher \<Rightarrow> Course_find db (TeacherOrEnrolled (userId s))
            | Admin \<Rightarrow> Course_find db Everything) of
        Threw \<Rightarrow> st
      | Reply cs \<Rightarrow>
          (let st1 = fold (\<lambda>c. join s (''course_'' @ course_id c)) cs st
           in case department (user s) of
                None \<Rightarrow> st1
              | Some d \<Rightarrow> if d \<noteq> [] then join s (''department_'' @ d) st1 else st1))"

text \<open>
  \<^verbatim>\<open>broadcastStatusUpdate\<close> iterates \<^verbatim>\<open>user.enrolledCourses\<close> and splices each
  element, a subdocument, into the room name: the room is \<^verbatim>\<open>course_\<close> followed by
  what the subdocument prints.
\<close>

definition broadcastStatusUpdate :: "store \<Rightarrow> string \<Rightarrow> (string \<times> json) list \<Rightarrow> emission list" where
  "broadcastStatusUpdate db uid statusInfo =
     (case User_findById db uid of
        Threw \<Rightarrow> []
      | Reply None \<Rightarrow> []
      | Reply (Some u) \<Rightarrow>
          (if role u = Student
           then map (\<lambda>courseId. (ToRoom (''course_'' @ inspect db courseId), ''user_status_update'',
                                 JObj ((''userId'', JStr uid) # statusInfo)))
                    (enrolledCourses u)
           else [])
          @ (case department u of
               None \<Rightarrow> []
             | Some d \<Rightarrow>
                 if d \<noteq> []
                 then [(ToRoom (''department_'' @ d), ''user_status_update'',
                        JObj ((''userId'', JStr uid) # statusInfo))]
                 else []))"

text \<open>
  The \<^verbatim>\<open>connection\<close> handler, with the joins of \<^verbatim>\<open>joinCourseRooms\<close>, which it
  starts without awaiting. \<open>connection_sync\<close> is the part that runs before the
  handler returns.
\<close>

definition connection_sync :: "string \<Rightarrow> socket \<Rightarrow> state \<Rightarrow> state \<times> emission list" where
  "connection_sync now s st =
     (join s (''user_'' @ userId s)
        (st\<lparr>connectedUsers := (connectedUsers st)(userId s \<mapsto> sock_id s),
            userSockets := (userSockets st)(sock_id s \<mapsto> userId s)\<rparr>),
      [(ToSocket (sock_id s), ''connected'',
        JObj [(''message'', JStr ''Connected to USTHB App''),
              (''user'', user_obj s), (''timestamp'', JStr now)])])"

definition connection :: "store \<Rightarrow> string \<Rightarrow> socket \<Rightarrow> state \<Rightarrow> state \<times> emission list" where
  "connection db now s st =
     (let st1 = st\<lparr>connectedUsers := (connectedUsers st)(userId s \<mapsto> sock_id s),
                   userSockets := (userSockets st)(sock_id s \<mapsto> userId s)\<rparr>;
          st2 = join s (''user_'' @ userId s) st1;
          st3 = joinCourseRooms db s st2
      in (st3, [(ToSocket (sock_id s), ''connected'',
                 JObj [(''message'', JStr ''Connected to USTHB App''),
                       (''user'', user_obj s), (''timestamp'', JStr now)])]))"

text \<open>
  The \<^verbatim>\<open>disconnect\<close> handler, with the broadcast it starts. \<^verbatim>\<open>updateUserLastSeen\<close>
  writes \<^verbatim>\<open>lastSeen\<close> and \<^verbatim>\<open>onlineStatus\<close> to the store inside its own \<^verbatim>\<open>try\<close>; no
  query of the service reads either field, so the store is not part of the state.
  \<open>disconnect_sync\<close> is the part that runs before the handler returns.
\<close>

definition disconnect_sync :: "socket \<Rightarrow> state \<Rightarrow> state" where
  "disconnect_sync s st =
     st\<lparr>connectedUsers := (connectedUsers st)(userId s := None),
        userSockets := (userSockets st)(sock_id s := None)\<rparr>"

definition disconnect :: "store \<Rightarrow> string \<Rightarrow> socket \<Rightarrow> state \<Rightarrow> state \<times> emission list" where
  "disconnect db now s st =
     (st\<lparr>connectedUsers := (connectedUsers st)(userId s := None),
         userSockets := (userSockets st)(sock_id s := None)\<rparr>,
      broadcastStatusUpdate db (userId s)
        [(''status'', JStr ''offline''), (''lastSeen'', JStr now)])"

definition error_msg :: "socket \<Rightarrow> string \<Rightarrow> emission" where
  "error_msg s m = (ToSocket (sock_id s), ''error'', JObj [(''message'', JStr m)])"

text \<open>The \<^verbatim>\<open>join_course\<close> handler; \<open>courseId\<close> is the id string the client sent
  (a payload that is not a string, which the mapper would read as a query document
  or cast in its own way, is not an input here; likewise for \<^verbatim>\<open>leave_course\<close>).\<close>

definition join_course :: "store \<Rightarrow> socket \<Rightarrow> string \<Rightarrow> state \<Rightarrow> state \<times> emission list" where
  "join_course db s courseId st =
     (case Course_findById db courseId of
        Threw \<Rightarrow> (st, [error_msg s ''Failed to join course''])
      | Reply None \<Rightarrow> (st, [error_msg s ''Course not found''])
      | Reply (Some course) \<Rightarrow>
          (let hasAccess =
                 (userId s \<in> set (enrolledStudents course)
                  \<or> teacher course = userId s
                  \<or> role (user s) = Admin)
           in if hasAccess
              then (join s (''course_'' @ courseId) st,
                    [(ToSocket (sock_id s), ''course_joined'',
                      JObj [(''courseId'', JStr courseId),
                            (''courseName'', JStr (course_name course)),
                            (''message'', JStr (''Joined '' @ course_name course @ '' chat room''))]),
                     (ToRoomExcept (sock_id s) (''course_'' @ courseId), ''user_joined_course'',
                      JObj [(''user'', user_obj s), (''courseId'', JStr courseId)])])
              else (st, [error_msg s ''Not authorized to join this course''])))"

definition leave_course :: "socket \<Rightarrow> string \<Rightarrow> state \<Rightarrow> state \<times> emission list" where
  "leave_course s courseId st =
     (leave s (''course_'' @ courseId) st,
      [(ToSocket (sock_id s), ''course_left'',
        JObj [(''courseId'', JStr courseId), (''message'', JStr ''Left course chat room'')]),
       (ToRoomExcept (sock_id s) (''course_'' @ courseId), ''user_left_course'',
        JObj [(''user'', user_obj s), (''courseId'', JStr courseId)])])"

text \<open>In the relay handlers the room name is built first: when the template literal
  throws, nothing is emitted.\<close>

definition typing_start :: "socket \<Rightarrow> json \<Rightarrow> error + emission list" where
  "typing_start s data =
     (if nullish data then Inl TypeError
      else if truthy (field data ''recipientId'') \<and> field data ''conversationType'' = JStr ''private''
      then (case to_str (field data ''recipientId'') of
              Inl err \<Rightarrow> Inl err
            | Inr r \<Rightarrow>
                Inr [(ToRoomExcept (sock_id s) (''user_'' @ r), ''user_typing'',
                      JObj [(''userId'', JStr (userId s)), (''userName'', JStr (full_name s)),
                            (''conversationType'', JStr ''private'')])])
      else if truthy (field data ''courseId'') \<and> field data ''conversationType'' = JStr ''course''
      then (case to_str (field data ''courseId'') of
              Inl err \<Rightarrow> Inl err
            | Inr r \<Rightarrow>
                Inr [(ToRoomExcept (sock_id s) (''course_'' @ r), ''user_typing'',
                      JObj [(''userId'', JStr (userId s)), (''userName'', JStr (full_name s)),
                            (''courseId'', field data ''courseId''),
                            (''conversationType'', JStr ''course'')])])
      else Inr [])"

definition typing_stop :: "socket \<Rightarrow> json \<Rightarrow> error + emission list" where
  "typing_stop s data =
     (if nullish data then Inl TypeError
      else if truthy (field data ''recipientId'') \<and> field data ''conversationType'' = JStr ''private''
      then (case to_str (field data ''recipientId'') of
              Inl err \<Rightarrow> Inl err
            | Inr r \<Rightarrow>
                Inr [(ToRoomExcept (sock_id s) (''user_'' @ r), ''user_stopped_typing'',
                      JObj [(''userId'', JStr (userId s)),
                            (''conversationType'', JStr ''private'')])])
      else if truthy (field data ''courseId'') \<and> field data ''conversationType'' = JStr ''course''
      then (case to_str (field data ''courseId'') of
              Inl err \<Rightarrow> Inl err
            | Inr r \<Rightarrow>
                Inr [(ToRoomExcept (sock_id s) (''course_'' @ r), ''user_stopped_typing'',
                      JObj [(''userId'', JStr (userId s)), (''courseId'', field data ''courseId''),
                            (''conversationType'', JStr ''course'')])])
      else Inr [])"

definition message_read :: "string \<Rightarrow> socket \<Rightarrow> json \<Rightarrow> error + emission list" where
  "message_read now s data =
     (if nullish data then Inl TypeError
      else let messageId = field data ''messageId''; senderId = field data ''senderId'';
               conversationType = field data ''conversationType'';
               courseId = field data ''courseId''
           in if conversationType = JStr ''private'' \<and> truthy senderId
              then (case to_str senderId of
                      Inl err \<Rightarrow> Inl err
                    | Inr r \<Rightarrow>
                        Inr [(ToRoomExcept (sock_id s) (''user_'' @ r), ''message_read_receipt'',
                              JObj [(''messageId'', messageId), (''readBy'', JStr (userId s)),
                                    (''readAt'', JStr now)])])
              else if conversationType = JStr ''course'' \<and> truthy courseId
              then (case to_str courseId of
                      Inl err \<Rightarrow> Inl err
                    | Inr r \<Rightarrow>
                        Inr [(ToRoomExcept (sock_id s) (''course_'' @ r), ''message_read_receipt'',
                              JObj [(''messageId'', messageId), (''readBy'', JStr (userId s)),
                                    (''readAt'', JStr now), (''courseId'', courseId)])])
              else Inr [])"

text \<open>The \<^verbatim>\<open>status_update\<close> handler also stores the status on the in-memory
  \<^verbatim>\<open>socket.user\<close>, a property nothing else in the service reads.\<close>

definition status_update :: "store \<Rightarrow> string \<Rightarrow> socket \<Rightarrow> json \<Rightarrow> emission list" where
  "status_update db now s status =
     broadcastStatusUpdate db (userId s) [(''status'', status), (''lastSeen'', JStr now)]"

definition file_shared :: "string \<Rightarrow> socket \<Rightarrow> json \<Rightarrow> error + emission list" where
  "file_shared now s data =
     (if nullish data then Inl TypeError
      else let courseId = field data ''courseId''; fileInfo = field data ''fileInfo''
           in (case to_str courseId of
                 Inl err \<Rightarrow> Inl err
               | Inr r \<Rightarrow>
                   Inr [(ToRoomExcept (sock_id s) (''course_'' @ r), ''file_shared'',
                         JObj [(''fileInfo'', fileInfo), (''sharedBy'', user_obj s),
                               (''courseId'', courseId), (''timestamp'', JStr now)])]))"

definition announcement_created :: "json \<Rightarrow> error + emission list" where
  "announcement_created data =
     (if nullish data then Inl TypeError
      else let announcement = field data ''announcement''
           in if nullish announcement then Inl TypeError
              else if field announcement ''type'' = JStr ''general''
              then Inr [(ToAll, ''new_announcement'', announcement)]
              else if truthy (field announcement ''department'')
              then (case to_str (field announcement ''department'') of
                      Inl err \<Rightarrow> Inl err
                    | Inr r \<Rightarrow>
                        Inr [(ToRoom (''department_'' @ r), ''new_announcement'', announcement)])
              else if truthy (field announcement ''course'')
              then (case to_str (field announcement ''course'') of
                      Inl err \<Rightarrow> Inl err
                    | Inr r \<Rightarrow>
                        Inr [(ToRoom (''course_'' @ r), ''new_announcement'', announcement)])
              else Inr [])"

section \<open>The event loop\<close>

text \<open>
  One client event is one handler run for one socket at one clock reading. The
  emissions of a handler are delivered against the rooms as the handler leaves them.
  A handler that throws ends the run: the service installs nothing that would catch
  it. The handlers \<^verbatim>\<open>grade_updated\<close> and \<^verbatim>\<open>connect_error\<close> take no part in what is
  proved below and are not events here.
\<close>

datatype action =
    Connect
  | Disconnect
  | JoinCourse string
  | LeaveCourse string
  | TypingStart json
  | TypingStop json
  | MessageRead json
  | StatusUpdate json
  | FileShared json
  | AnnouncementCreated json

type_synonym event = "socket \<times> string \<times> action"

text \<open>
  Four pieces of the service wait for the store before they go on:
  \<^verbatim>\<open>joinCourseRooms\<close>, the whole body of \<^verbatim>\<open>join_course\<close>,
  \<^verbatim>\<open>broadcastStatusUpdate\<close> and \<^verbatim>\<open>updateUserLastSeen\<close>. A \<open>task\<close> is one of them
  waiting. \<open>start\<close> is what a handler does before it returns, with the tasks it
  leaves waiting; \<open>resume\<close> is what a task does once the store has answered. In a
  schedule the client events (\<open>Submit\<close>) and the answers of the store (\<open>Answer k\<close>,
  for the \<open>k\<close>-th waiting task) come in any order, an answer never before the event
  that asked.
\<close>

datatype task =
    JoinCourseRooms socket
  | JoinCourseLookup socket string
  | BroadcastStatus string "(string \<times> json) list"
  | UpdateLastSeen string

datatype occurrence = Submit socket string action | Answer nat

fun start :: "socket \<Rightarrow> string \<Rightarrow> action \<Rightarrow> state \<Rightarrow> error + state \<times> emission list \<times> task list" where
  "start s now Connect st =
     Inr (fst (connection_sync now s (transport_open s st)),
          snd (connection_sync now s (transport_open s st)), [JoinCourseRooms s])"
| "start s now Disconnect st =
     Inr (disconnect_sync s (transport_close s st), [],
          [UpdateLastSeen (userId s),
           BroadcastStatus (userId s) [(''status'', JStr ''offline''), (''lastSeen'', JStr now)]])"
| "start s now (JoinCourse c) st = Inr (st, [], [JoinCourseLookup s c])"
| "start s now (LeaveCourse c) st = Inr (fst (leave_course s c st), snd (leave_course s c st), [])"
| "start s now (TypingStart d) st = map_sum id (\<lambda>ems. (st, ems, [])) (typing_start s d)"
| "start s now (TypingStop d) st = map_sum id (\<lambda>ems. (st, ems, [])) (typing_stop s d)"
| "start s now (MessageRead d) st = map_sum id (\<lambda>ems. (st, ems, [])) (message_read now s d)"
| "start s now (StatusUpdate d) st =
     Inr (st, [], [BroadcastStatus (userId s) [(''status'', d), (''lastSeen'', JStr now)]])"
| "start s now (FileShared d) st = map_sum id (\<lambda>ems. (st, ems, [])) (file_shared now s d)"
| "start s now (AnnouncementCreated d) st =
     map_sum id (\<lambda>ems. (st, ems, [])) (announcement_created d)"

fun resume :: "store \<Rightarrow> task \<Rightarrow> state \<Rightarrow> state \<times> emission list" where
  "resume db (JoinCourseRooms s) st = (joinCourseRooms db s st, [])"
| "resume db (JoinCourseLookup s c) st = join_course db s c st"
| "resume db (BroadcastStatus uid statusInfo) st = (st, broadcastStatusUpdate db uid statusInfo)"
| "resume db (UpdateLastSeen uid) st = (st, [])"

fun tick :: "store \<Rightarrow> occurrence \<Rightarrow> state \<times> task list \<Rightarrow> error + state \<times> task list" where
  "tick db (Submit s now a) (st, waiting) =
     (case start s now a st of
        Inl err \<Rightarrow> Inl err
      | Inr (st', ems, ts) \<Rightarrow> Inr (deliver ems st', waiting @ ts))"
| "tick db (Answer k) (st, waiting) =
     (if k < length waiting
      then Inr (deliver (snd (resume db (waiting ! k) st)) (fst (resume db (waiting ! k) st)),
                take k waiting @ drop (Suc k) waiting)
      else Inr (st, waiting))"

fun schedule :: "store \<Rightarrow> occurrence list \<Rightarrow> state \<times> task list \<Rightarrow> error + state \<times> task list" where
  "schedule db [] cfg = Inr cfg"
| "schedule db (x # xs) cfg =
     (case tick db x cfg of Inl err \<Rightarrow> Inl err | Inr cfg' \<Rightarrow> schedule db xs cfg')"

text \<open>
  \<open>handle\<close> is a handler together with the tasks it starts, the store answering each
  at once, and \<open>step\<close> and \<open>run\<close> are the event loop of such events. They give the
  registry, the rooms and the emissions of an event; the order in which deliveries of
  different events reach an inbox is that of a schedule.
\<close>

fun awaits :: "action \<Rightarrow> nat" where
  "awaits Connect = 1"
| "awaits Disconnect = 2"
| "awaits (JoinCourse c) = 1"
| "awaits (StatusUpdate d) = 1"
| "awaits a = 0"

fun handle :: "store \<Rightarrow> socket \<Rightarrow> string \<Rightarrow> action \<Rightarrow> state \<Rightarrow> error + state \<times> emission list" where
  "handle db s now Connect st = Inr (connection db now s (transport_open s st))"
| "handle db s now Disconnect st = Inr (disconnect db now s (transport_close s st))"
| "handle db s now (JoinCourse c) st = Inr (join_course db s c st)"
| "handle db s now (LeaveCourse c) st = Inr (leave_course s c st)"
| "handle db s now (TypingStart d) st = map_sum id (Pair st) (typing_start s d)"
| "handle db s now (TypingStop d) st = map_sum id (Pair st) (typing_stop s d)"
| "handle db s now (MessageRead d) st = map_sum id (Pair st) (message_read now s d)"
| "handle db s now (StatusUpdate d) st = Inr (st, status_update db now s d)"
| "handle db s now (FileShared d) st = map_sum id (Pair st) (file_shared now s d)"
| "handle db s now (AnnouncementCreated d) st = map_sum id (Pair st) (announcement_created d)"

definition step :: "store \<Rightarrow> event \<Rightarrow> state \<Rightarrow> error + state" where
  "step db e st =
     (case e of (s, now, a) \<Rightarrow>
        (case handle db s now a st of
           Inl err \<Rightarrow> Inl err
         | Inr (st', ems) \<Rightarrow> Inr (deliver ems st')))"

fun run :: "store \<Rightarrow> event list \<Rightarrow> state \<Rightarrow> error + state" where
  "run db [] st = Inr st"
| "run db (e # es) st = (case step db e st of Inl err \<Rightarrow> Inl err | Inr st' \<Rightarrow> run db es st')"

section \<open>Traces\<close>

text \<open>
  The transport hands out a fresh id to every connection, and every other event comes
  from a socket that is connected (\<open>admissible\<close>). A trace is \<open>single_device\<close>
  when, in addition, no principal ever connects while it already holds a connection.
\<close>

fun admissible :: "state \<Rightarrow> event \<Rightarrow> bool" where
  "admissible st (s, now, Connect) = (sock_id s \<notin> sock_id ` set (sockets st))"
| "admissible st (s, now, a) = (s \<in> set (sockets st))"

fun exclusive :: "state \<Rightarrow> event \<Rightarrow> bool" where
  "exclusive st (s, now, Connect) = (userId s \<notin> userId ` set (sockets st))"
| "exclusive st e = True"

fun single_device :: "store \<Rightarrow> event list \<Rightarrow> state \<Rightarrow> bool" where
  "single_device db [] st = True"
| "single_device db (e # es) st =
     (admissible st e \<and> exclusive st e \<and>
      (case step db e st of Inl err \<Rightarrow> True | Inr st' \<Rightarrow> single_device db es st'))"

definition registry_exact :: "state \<Rightarrow> bool" where
  "registry_exact st =
     ((\<forall>u sid. connectedUsers st u = Some sid \<longleftrightarrow>
               (\<exists>x \<in> set (sockets st). userId x = u \<and> sock_id x = sid))
      \<and> distinct (map userId (sockets st)) \<and> distinct (map sock_id (sockets st)))"

text \<open>Connecting and disconnecting as total state transformers: the transport's part,
  the handler, and the delivery of what the handler emitted.\<close>

definition connected :: "store \<Rightarrow> string \<Rightarrow> socket \<Rightarrow> state \<Rightarrow> state" where
  "connected db now s st =
     deliver (snd (connection db now s (transport_open s st)))
             (fst (connection db now s (transport_open s st)))"

definition disconnected :: "store \<Rightarrow> string \<Rightarrow> socket \<Rightarrow> state \<Rightarrow> state" where
  "disconnected db now s st =
     deliver (snd (disconnect db now s (transport_close s st)))
             (fst (disconnect db now s (transport_close s st)))"

section \<open>Observing the relay\<close>

text \<open>
  The four signals of the ephemeral relay are the handlers \<^verbatim>\<open>typing_start\<close>,
  \<^verbatim>\<open>typing_stop\<close>, \<^verbatim>\<open>message_read\<close> and \<^verbatim>\<open>file_shared\<close>; each emits before it
  returns. \<open>relay\<close> is what such a handler emits (nothing when it throws) and \<open>actor\<close>
  reads the field of a relayed payload that names the acting principal.
\<close>

fun emitted_by :: "error + emission list \<Rightarrow> emission list" where
  "emitted_by (Inl err) = []"
| "emitted_by (Inr ems) = ems"

fun signal :: "action \<Rightarrow> bool" where
  "signal (TypingStart d) = True"
| "signal (TypingStop d) = True"
| "signal (MessageRead d) = True"
| "signal (FileShared d) = True"
| "signal a = False"

fun relay :: "string \<Rightarrow> socket \<Rightarrow> action \<Rightarrow> emission list" where
  "relay now s (TypingStart d) = emitted_by (typing_start s d)"
| "relay now s (TypingStop d) = emitted_by (typing_stop s d)"
| "relay now s (MessageRead d) = emitted_by (message_read now s d)"
| "relay now s (FileShared d) = emitted_by (file_shared now s d)"
| "relay now s a = []"

fun actor :: "emission \<Rightarrow> json" where
  "actor (tg, ev, p) =
     (if ev = ''file_shared'' then field (field p ''sharedBy'') ''id''
      else if ev = ''message_read_receipt'' then field p ''readBy''
      else field p ''userId'')"

text \<open>The course channels of a socket are the rooms it has joined whose name starts
  with \<^verbatim>\<open>course_\<close>.\<close>

definition course_channels :: "state \<Rightarrow> string \<Rightarrow> string set" where
  "course_channels st sid = {r \<in> rooms st sid. take 7 r = ''course_''}"

section \<open>A small campus\<close>

text \<open>A student with two devices, a teacher and an administrator, and two courses both
  taught by the teacher, one of them with the student enrolled. The store casts 24
  hexadecimal digits; \<open>plain_inspect\<close> stands for the text a subdocument prints.\<close>

definition alice_id :: string where "alice_id = ''64a000000000000000000001''"

definition bob_id :: string where "bob_id = ''64b000000000000000000002''"

definition rym_id :: string where "rym_id = ''64d000000000000000000003''"

definition algo_id :: string where "algo_id = ''64c000000000000000000001''"

definition nets_id :: string where "nets_id = ''64c000000000000000000002''"

definition plain_inspect :: "enrollment \<Rightarrow> string" where
  "plain_inspect e =
     ''{ course: ObjectId('' @ enrolled_course e @ ''), enrollmentDate: '' @ enrollmentDate e
     @ '', status: '' @ enrollment_status e @ '' }''"

definition alice_algo :: enrollment where
  "alice_algo = \<lparr>enrolled_course = algo_id, enrollmentDate = ''2024-09-15'',
                 enrollment_status = ''active''\<rparr>"

definition alice :: user_doc where
  "alice = \<lparr>user_id = alice_id, firstName = ''Alice'', lastName = ''Amrani'', role = Student,
            department = Some ''Networks'', enrolledCourses = [alice_algo], isActive = True\<rparr>"

definition bob :: user_doc where
  "bob = \<lparr>user_id = bob_id, firstName = ''Bob'', lastName = ''Belkacem'', role = Teacher,
          department = Some ''Networks'', enrolledCourses = [], isActive = True\<rparr>"

definition root :: user_doc where
  "root = \<lparr>user_id = rym_id, firstName = ''Rym'', lastName = ''Rahmani'', role = Admin,
           department = None, enrolledCourses = [], isActive = True\<rparr>"

definition algo :: course_doc where
  "algo = \<lparr>course_id = algo_id, course_name = ''Algorithms'', teacher = bob_id,
           enrolledStudents = [alice_id]\<rparr>"

definition nets :: course_doc where
  "nets = \<lparr>course_id = nets_id, course_name = ''Routing'', teacher = bob_id,
           enrolledStudents = []\<rparr>"

definition campus :: store where
  "campus = \<lparr>users = [alice, bob, root], courses = [algo, nets], reachable = True,
             cast = hex_object_id, inspect = plain_inspect\<rparr>"

definition phone :: socket where
  "phone = \<lparr>sock_id = ''s1'', userId = alice_id, user = alice\<rparr>"

definition laptop :: socket where
  "laptop = \<lparr>sock_id = ''s2'', userId = alice_id, user = alice\<rparr>"

definition desk :: socket where
  "desk = \<lparr>sock_id = ''s3'', userId = bob_id, user = bob\<rparr>"

definition console :: socket where
  "console = \<lparr>sock_id = ''s4'', userId = rym_id, user = root\<rparr>"

text \<open>The teacher at the desk and the student on the phone, both connected; payloads
  a client may send.\<close>

definition lecture :: state where
  "lecture = connected campus ''t2'' phone (connected campus ''t1'' desk init)"

definition typing_algo :: json where
  "typing_algo = JObj [(''courseId'', JStr algo_id), (''conversationType'', JStr ''course'')]"


definition typing_nets_as_bob :: json where
  "typing_nets_as_bob = JObj [(''userId'', JStr bob_id), (''courseId'', JStr nets_id),
                              (''conversationType'', JStr ''course'')]"

definition read_as_root :: json where
  "read_as_root = JObj [(''readBy'', JStr rym_id), (''messageId'', JStr ''m1''),
                        (''senderId'', JStr bob_id), (''conversationType'', JStr ''private'')]"

definition notice :: "string \<Rightarrow> json" where
  "notice ty = JObj [(''announcement'',
                      JObj [(''type'', JStr ty), (''department'', JStr ''Networks''),
                            (''course'', JStr algo_id)])]"

definition course_notice :: json where
  "course_notice =
     JObj [(''announcement'', JObj [(''type'', JStr ''exam''), (''course'', JStr algo_id)])]"

definition read_algo :: json where
  "read_algo = JObj [(''messageId'', JStr ''m1''), (''conversationType'', JStr ''course''),
                     (''courseId'', JStr algo_id)]"

definition file_algo :: json where
  "file_algo = JObj [(''courseId'', JStr algo_id),
                     (''fileInfo'', JObj [(''name'', JStr ''notes.pdf'')])]"

text \<open>An object with an own property \<^verbatim>\<open>toString\<close>, as a client can send it in plain
  JSON, and payloads that carry it where a room id is expected.\<close>

definition unprintable :: json where
  "unprintable = JObj [(''toString'', JStr ''x'')]"

definition typing_unprintable :: json where
  "typing_unprintable = JObj [(''courseId'', unprintable), (''conversationType'', JStr ''course'')]"

definition notice_unprintable :: json where
  "notice_unprintable =
     JObj [(''announcement'', JObj [(''type'', JStr ''exam''), (''department'', unprintable)])]"

text \<open>A well-formed id that no course has, and two schedules from the initial state.
  In \<open>arriving\<close> the teacher and the student connect, the store answering each
  \<^verbatim>\<open>joinCourseRooms\<close> at once. \<open>overtaking\<close> goes on: the teacher submits a status
  update and then a typing signal, and the store answers the lookup of the status
  broadcast only after the typing signal has been handled.\<close>

definition ghost_id :: string where "ghost_id = ''64c000000000000000000009''"

definition arriving :: "occurrence list" where
  "arriving = [Submit desk ''t1'' Connect, Answer 0, Submit phone ''t2'' Connect, Answer 0]"

definition overtaking :: "occurrence list" where
  "overtaking = arriving @ [Submit desk ''t3'' (StatusUpdate (JStr ''away'')),
                            Submit desk ''t4'' (TypingStart typing_algo),
                            Answer 0]"

section \<open>What each handler leaves untouched\<close>

lemma deliver1_proj [simp]:
  "connectedUsers (deliver1 em st) = connectedUsers st"
  "userSockets (deliver1 em st) = userSockets st"
  "sockets (deliver1 em st) = sockets st"
  "rooms (deliver1 em st) = rooms st"
  by (simp_all add: deliver1_def)

lemma deliver_proj [simp]:
  "connectedUsers (deliver ems st) = connectedUsers st"
  "userSockets (deliver ems st) = userSockets st"
  "sockets (deliver ems st) = sockets st"
  "rooms (deliver ems st) = rooms st"
  unfolding deliver_def by (induction ems arbitrary: st) simp_all

lemma join_proj [simp]:
  "connectedUsers (join s r st) = connectedUsers st"
  "userSockets (join s r st) = userSockets st"
  "sockets (join s r st) = sockets st"
  "inbox (join s r st) = inbox st"
  by (simp_all add: join_def)

lemma leave_proj [simp]:
  "connectedUsers (leave s r st) = connectedUsers st"
  "userSockets (leave s r st) = userSockets st"
  "sockets (leave s r st) = sockets st"
  "inbox (leave s r st) = inbox st"
  by (simp_all add: leave_def)

lemma fold_join_proj [simp]:
  "connectedUsers (fold (\<lambda>c. join s (f c)) cs st) = connectedUsers st"
  "userSockets (fold (\<lambda>c. join s (f c)) cs st) = userSockets st"
  "sockets (fold (\<lambda>c. join s (f c)) cs st) = sockets st"
  "inbox (fold (\<lambda>c. join s (f c)) cs st) = inbox st"
  by (induction cs arbitrary: st) simp_all

lemma joinCourseRooms_proj [simp]:
  "connectedUsers (joinCourseRooms db s st) = connectedUsers st"
  "userSockets (joinCourseRooms db s st) = userSockets st"
  "sockets (joinCourseRooms db s st) = sockets st"
  "inbox (joinCourseRooms db s st) = inbox st"
  by (simp_all add: joinCourseRooms_def Let_def split: reply.splits option.splits role.splits)

lemma connection_registry:
  "connectedUsers (fst (connection db now s st)) = (connectedUsers st)(userId s \<mapsto> sock_id s)"
  "userSockets (fst (connection db now s st)) = (userSockets st)(sock_id s \<mapsto> userId s)"
  "sockets (fst (connection db now s st)) = sockets st"
  by (simp_all add: connection_def Let_def)

lemma disconnect_registry:
  "connectedUsers (fst (disconnect db now s st)) = (connectedUsers st)(userId s := None)"
  "userSockets (fst (disconnect db now s st)) = (userSockets st)(sock_id s := None)"
  "sockets (fst (disconnect db now s st)) = sockets st"
  by (simp_all add: disconnect_def)

lemma join_course_registry:
  "connectedUsers (fst (join_course db s c st)) = connectedUsers st"
  "userSockets (fst (join_course db s c st)) = userSockets st"
  "sockets (fst (join_course db s c st)) = sockets st"
  by (simp_all add: join_course_def Let_def split: reply.splits option.splits)

lemma leave_course_registry:
  "connectedUsers (fst (leave_course s c st)) = connectedUsers st"
  "userSockets (fst (leave_course s c st)) = userSockets st"
  "sockets (fst (leave_course s c st)) = sockets st"
  by (simp_all add: leave_course_def)

lemma transport_proj [simp]:
  "connectedUsers (transport_open s st) = connectedUsers st"
  "userSockets (transport_open s st) = userSockets st"
  "sockets (transport_open s st) = sockets st @ [s]"
  "connectedUsers (transport_close s st) = connectedUsers st"
  "userSockets (transport_close s st) = userSockets st"
  "sockets (transport_close s st) = filter (\<lambda>x. sock_id x \<noteq> sock_id s) (sockets st)"
  by (simp_all add: transport_open_def transport_close_def)

lemma handle_registry:
  assumes "handle db s now a st = Inr (st', ems)"
  shows "connectedUsers st' =
           (case a of Connect \<Rightarrow> (connectedUsers st)(userId s \<mapsto> sock_id s)
                    | Disconnect \<Rightarrow> (connectedUsers st)(userId s := None)
                    | _ \<Rightarrow> connectedUsers st)"
    and "sockets st' =
           (case a of Connect \<Rightarrow> sockets st @ [s]
                    | Disconnect \<Rightarrow> filter (\<lambda>x. sock_id x \<noteq> sock_id s) (sockets st)
                    | _ \<Rightarrow> sockets st)"
proof -
  have "st' = fst (st', ems)" by simp
  show "connectedUsers st' =
           (case a of Connect \<Rightarrow> (connectedUsers st)(userId s \<mapsto> sock_id s)
                    | Disconnect \<Rightarrow> (connectedUsers st)(userId s := None)
                    | _ \<Rightarrow> connectedUsers st)"
  proof (cases a)
    case Connect
    with assms have "st' = fst (connection db now s (transport_open s st))" by simp
    then show ?thesis using Connect by (simp add: connection_registry)
  next
    case Disconnect
    with assms have "st' = fst (disconnect db now s (transport_close s st))" by simp
    then show ?thesis using Disconnect by (simp add: disconnect_registry)
  next
    case (JoinCourse c)
    with assms have "st' = fst (join_course db s c st)" by simp
    then show ?thesis using JoinCourse by (simp add: join_course_registry)
  next
    case (LeaveCourse c)
    with assms have "st' = fst (leave_course s c st)" by simp
    then show ?thesis using LeaveCourse by (simp add: leave_course_registry)
  next
    case (TypingStart d)
    with assms show ?thesis by (cases "typing_start s d") auto
  next
    case (TypingStop d)
    with assms show ?thesis by (cases "typing_stop s d") auto
  next
    case (MessageRead d)
    with assms show ?thesis by (cases "message_read now s d") auto
  next
    case (StatusUpdate d)
    with assms show ?thesis by auto
  next
    case (FileShared d)
    with assms show ?thesis by (cases "file_shared now s d") auto
  next
    case (AnnouncementCreated d)
    with assms show ?thesis by (cases "announcement_created d") auto
  qed
  show "sockets st' =
           (case a of Connect \<Rightarrow> sockets st @ [s]
                    | Disconnect \<Rightarrow> filter (\<lambda>x. sock_id x \<noteq> sock_id s) (sockets st)
                    | _ \<Rightarrow> sockets st)"
  proof (cases a)
    case Connect
    with assms have "st' = fst (connection db now s (transport_open s st))" by simp
    then show ?thesis using Connect by (simp add: connection_registry)
  next
    case Disconnect
    with assms have "st' = fst (disconnect db now s (transport_close s st))" by simp
    then show ?thesis using Disconnect by (simp add: disconnect_registry)
  next
    case (JoinCourse c)
    with assms have "st' = fst (join_course db s c st)" by simp
    then show ?thesis using JoinCourse by (simp add: join_course_registry)
  next
    case (LeaveCourse c)
    with assms have "st' = fst (leave_course s c st)" by simp
    then show ?thesis using LeaveCourse by (simp add: leave_course_registry)
  next
    case (TypingStart d)
    with assms show ?thesis by (cases "typing_start s d") auto
  next
    case (TypingStop d)
    with assms show ?thesis by (cases "typing_stop s d") auto
  next
    case (MessageRead d)
    with assms show ?thesis by (cases "message_read now s d") auto
  next
    case (StatusUpdate d)
    with assms show ?thesis by auto
  next
    case (FileShared d)
    with assms show ?thesis by (cases "file_shared now s d") auto
  next
    case (AnnouncementCreated d)
    with assms show ?thesis by (cases "announcement_created d") auto
  qed
qed

lemma step_registry:
  assumes "step db (s, now, a) st = Inr st'"
  shows "connectedUsers st' =
           (case a of Connect \<Rightarrow> (connectedUsers st)(userId s \<mapsto> sock_id s)
                    | Disconnect \<Rightarrow> (connectedUsers st)(userId s := None)
                    | _ \<Rightarrow> connectedUsers st)"
    and "sockets st' =
           (case a of Connect \<Rightarrow> sockets st @ [s]
                    | Disconnect \<Rightarrow> filter (\<lambda>x. sock_id x \<noteq> sock_id s) (sockets st)
                    | _ \<Rightarrow> sockets st)"
proof -
  from assms obtain st1 ems where h: "handle db s now a st = Inr (st1, ems)" and st': "st' = deliver ems st1"
    by (auto simp: step_def split: sum.splits)
  show "connectedUsers st' =
           (case a of Connect \<Rightarrow> (connectedUsers st)(userId s \<mapsto> sock_id s)
                    | Disconnect \<Rightarrow> (connectedUsers st)(userId s := None)
                    | _ \<Rightarrow> connectedUsers st)"
    using handle_registry(1)[OF h] st' by simp
  show "sockets st' =
           (case a of Connect \<Rightarrow> sockets st @ [s]
                    | Disconnect \<Rightarrow> filter (\<lambda>x. sock_id x \<noteq> sock_id s) (sockets st)
                    | _ \<Rightarrow> sockets st)"
    using handle_registry(2)[OF h] st' by simp
qed

lemma step_Connect: "step db (s, now, Connect) st = Inr (connected db now s st)"
  by (simp add: step_def connected_def split: prod.splits)

lemma step_Disconnect: "step db (s, now, Disconnect) st = Inr (disconnected db now s st)"
  by (simp add: step_def disconnected_def split: prod.splits)

lemma connected_registry [simp]:
  "connectedUsers (connected db now s st) = (connectedUsers st)(userId s \<mapsto> sock_id s)"
  "userSockets (connected db now s st) = (userSockets st)(sock_id s \<mapsto> userId s)"
  "sockets (connected db now s st) = sockets st @ [s]"
  by (simp_all add: connected_def connection_registry)

lemma disconnected_registry [simp]:
  "connectedUsers (disconnected db now s st) = (connectedUsers st)(userId s := None)"
  "userSockets (disconnected db now s st) = (userSockets st)(sock_id s := None)"
  "sockets (disconnected db now s st) = filter (\<lambda>x. sock_id x \<noteq> sock_id s) (sockets st)"
  by (simp_all add: disconnected_def disconnect_registry)

lemma init_proj [simp]:
  "connectedUsers init = Map.empty" "userSockets init = Map.empty" "sockets init = []"
  "rooms init = (\<lambda>_. {})" "inbox init = (\<lambda>_. [])"
  by (simp_all add: init_def)


section \<open>The registry invariant\<close>

lemma registry_exact_init: "registry_exact init"
  by (simp add: registry_exact_def init_def)

lemma registry_exact_step:
  assumes inv: "registry_exact st" and adm: "admissible st e" and exc: "exclusive st e"
    and st: "step db e st = Inr st'"
  shows "registry_exact st'"
proof -
  obtain s now a where e: "e = (s, now, a)" by (cases e)
  note reg = step_registry[OF st[unfolded e]]
  from inv have ex: "\<And>u sid. connectedUsers st u = Some sid \<longleftrightarrow>
               (\<exists>x \<in> set (sockets st). userId x = u \<and> sock_id x = sid)"
    and du: "distinct (map userId (sockets st))" and ds: "distinct (map sock_id (sockets st))"
    by (simp_all add: registry_exact_def)
  show ?thesis
  proof (cases a)
    case Connect
    from adm exc e Connect have fresh: "sock_id s \<notin> sock_id ` set (sockets st)"
      and alone: "userId s \<notin> userId ` set (sockets st)" by simp_all
    show ?thesis unfolding registry_exact_def using reg Connect ex du ds fresh alone
      by (auto simp: image_iff)
  next
    case Disconnect
    from adm e Disconnect have mem: "s \<in> set (sockets st)" by simp
    have uniq: "\<And>x. x \<in> set (sockets st) \<Longrightarrow> userId x = userId s \<Longrightarrow> x = s"
      using du mem by (meson distinct_map inj_onD)
    have uniq2: "\<And>x. x \<in> set (sockets st) \<Longrightarrow> sock_id x = sock_id s \<Longrightarrow> x = s"
      using ds mem by (meson distinct_map inj_onD)
    have cu: "connectedUsers st' = (connectedUsers st)(userId s := None)"
      and so: "sockets st' = filter (\<lambda>x. sock_id x \<noteq> sock_id s) (sockets st)"
      using reg Disconnect by simp_all
    have "(connectedUsers st' u = Some sid) =
            (\<exists>x \<in> set (sockets st'). userId x = u \<and> sock_id x = sid)" for u sid
    proof (cases "u = userId s")
      case True
      then show ?thesis using cu so uniq by auto
    next
      case False
      then have "connectedUsers st' u = connectedUsers st u" using cu by simp
      moreover have "(\<exists>x \<in> set (sockets st'). userId x = u \<and> sock_id x = sid) =
                     (\<exists>x \<in> set (sockets st). userId x = u \<and> sock_id x = sid)"
        using so False uniq2 by auto
      ultimately show ?thesis using ex by simp
    qed
    then show ?thesis unfolding registry_exact_def using so du ds
      by (simp add: distinct_map_filter)
  qed (use reg inv in \<open>simp_all add: registry_exact_def\<close>)
qed

lemma registry_exact_run:
  "registry_exact st \<Longrightarrow> single_device db evs st \<Longrightarrow> run db evs st = Inr st' \<Longrightarrow> registry_exact st'"
proof (induction evs arbitrary: st)
  case Nil
  then show ?case by simp
next
  case (Cons e evs)
  then show ?case
    by (auto split: sum.splits dest: registry_exact_step)
qed


section \<open>Rooms and inboxes\<close>

lemma rooms_join [simp]:
  "rooms (join s r st) = (rooms st)(sock_id s := insert r (rooms st (sock_id s)))"
  by (simp add: join_def)

lemma rooms_fold_join:
  "rooms (fold (\<lambda>c. join s (f c)) cs st) =
     (rooms st)(sock_id s := rooms st (sock_id s) \<union> f ` set cs)"
  by (induction cs arbitrary: st) (simp_all add: fun_eq_iff) 

lemma rooms_connected_admin:
  assumes "role (user s) = Admin" and "reachable db"
  shows "rooms (connected db now s st) (sock_id s) =
           {''user_'' @ userId s}
           \<union> (\<lambda>c. ''course_'' @ course_id c) ` set (courses db)
           \<union> (case department (user s) of None \<Rightarrow> {}
               | Some d \<Rightarrow> if d \<noteq> [] then {''department_'' @ d} else {})"
  using assms
  by (auto simp: connected_def connection_def Let_def joinCourseRooms_def Course_find_def
        rooms_fold_join transport_open_def split: option.splits)

lemma receives_deliver1 [simp]: "receives (deliver1 em st) tg sid = receives st tg sid"
  by (cases tg) (simp_all add: live_def)

lemma receives_deliver [simp]: "receives (deliver ems st) tg sid = receives st tg sid"
  by (cases tg) (simp_all add: live_def)

lemma inbox_deliver1:
  "inbox (deliver1 em st) T = inbox st T @ (if receives st (fst em) T then [snd em] else [])"
  by (simp add: deliver1_def)

lemma inbox_deliver:
  "inbox (deliver ems st) T = inbox st T @ map snd (filter (\<lambda>em. receives st (fst em) T) ems)"
  unfolding deliver_def
  by (induction ems arbitrary: st) (simp_all add: inbox_deliver1)

lemma inbox_transport [simp]:
  "inbox (transport_open s st) = inbox st"
  "inbox (transport_close s st) = inbox st"
  by (simp_all add: transport_open_def transport_close_def)

lemma inbox_join_course [simp]: "inbox (fst (join_course db s c st)) = inbox st"
  by (simp add: join_course_def Let_def split: reply.splits option.splits)

lemma inbox_start:
  assumes "start s now a st = Inr (st', ems, ts)"
  shows "inbox st' = inbox st"
proof (cases a)
  case Connect
  with assms show ?thesis by (auto simp: connection_sync_def)
next
  case Disconnect
  with assms show ?thesis by (auto simp: disconnect_sync_def)
next
  case (JoinCourse c)
  with assms show ?thesis by auto
next
  case (LeaveCourse c)
  with assms show ?thesis by (auto simp: leave_course_def)
next
  case (TypingStart d)
  with assms show ?thesis by (cases "typing_start s d") auto
next
  case (TypingStop d)
  with assms show ?thesis by (cases "typing_stop s d") auto
next
  case (MessageRead d)
  with assms show ?thesis by (cases "message_read now s d") auto
next
  case (StatusUpdate d)
  with assms show ?thesis by auto
next
  case (FileShared d)
  with assms show ?thesis by (cases "file_shared now s d") auto
next
  case (AnnouncementCreated d)
  with assms show ?thesis by (cases "announcement_created d") auto
qed

lemma inbox_resume: "inbox (fst (resume db t st)) = inbox st"
  by (cases t) simp_all

lemma inbox_tick:
  assumes "tick db x (st, waiting) = Inr (st', waiting')"
  shows "\<exists>xs. inbox st' T = inbox st T @ xs"
proof (cases x)
  case (Submit s now a)
  with assms obtain st1 ems ts where h: "start s now a st = Inr (st1, ems, ts)"
    and st': "st' = deliver ems st1"
    by (auto split: sum.splits)
  from inbox_start[OF h] st' show ?thesis by (simp add: inbox_deliver)
next
  case (Answer k)
  with assms show ?thesis
    by (auto simp: inbox_deliver inbox_resume split: if_splits)
qed

lemma inbox_schedule:
  "schedule db xs cfg = Inr cfg' \<Longrightarrow> \<exists>ys. inbox (fst cfg') T = inbox (fst cfg) T @ ys"
proof (induction xs arbitrary: cfg)
  case Nil
  then show ?case by simp
next
  case (Cons x xs)
  from Cons.prems obtain cfg1 where t: "tick db x cfg = Inr cfg1"
    and r: "schedule db xs cfg1 = Inr cfg'"
    by (auto split: sum.splits)
  from Cons.IH[OF r] obtain ys where 1: "inbox (fst cfg') T = inbox (fst cfg1) T @ ys" by blast
  from inbox_tick[of db x "fst cfg" "snd cfg" "fst cfg1" "snd cfg1" T] t
  obtain zs where "inbox (fst cfg1) T = inbox (fst cfg) T @ zs" by auto
  with 1 show ?case by simp
qed

lemma tick_signal:
  assumes "signal a" and "tick db (Submit s now a) (st, waiting) = Inr (st', waiting')"
  shows "st' = deliver (relay now s a) st" and "waiting' = waiting"
proof -
  have "st' = deliver (relay now s a) st \<and> waiting' = waiting"
  proof (cases a)
    case (TypingStart d)
    with assms show ?thesis by (cases "typing_start s d") auto
  next
    case (TypingStop d)
    with assms show ?thesis by (cases "typing_stop s d") auto
  next
    case (MessageRead d)
    with assms show ?thesis by (cases "message_read now s d") auto
  next
    case (FileShared d)
    with assms show ?thesis by (cases "file_shared now s d") auto
  qed (use assms in simp_all)
  then show "st' = deliver (relay now s a) st" and "waiting' = waiting" by simp_all
qed

lemma tick_relay:
  assumes "signal a" and "\<not> isl (start s now a st)"
  shows "tick db (Submit s now a) (st, waiting) = Inr (deliver (relay now s a) st, waiting)"
proof (cases a)
  case (TypingStart d)
  with assms show ?thesis by (cases "typing_start s d") simp_all
next
  case (TypingStop d)
  with assms show ?thesis by (cases "typing_stop s d") simp_all
next
  case (MessageRead d)
  with assms show ?thesis by (cases "message_read now s d") simp_all
next
  case (FileShared d)
  with assms show ?thesis by (cases "file_shared now s d") simp_all
qed (use assms in simp_all)

section \<open>The event loop as a schedule\<close>

lemma deliver1_join:
  "deliver1 (ToSocket x, m) (join s r st) = join s r (deliver1 (ToSocket x, m) st)"
  by (simp add: deliver1_def join_def live_def cong: if_cong)

lemma deliver1_fold_join:
  "deliver1 (ToSocket x, m) (fold (\<lambda>c. join s (f c)) cs st)
     = fold (\<lambda>c. join s (f c)) cs (deliver1 (ToSocket x, m) st)"
  by (induction cs arbitrary: st) (simp_all add: deliver1_join)

lemma deliver1_joinCourseRooms:
  "deliver1 (ToSocket x, m) (joinCourseRooms db s st)
     = joinCourseRooms db s (deliver1 (ToSocket x, m) st)"
  by (simp add: joinCourseRooms_def Let_def deliver1_fold_join deliver1_join
        split: reply.splits option.splits role.splits)

lemma connection_as_sync:
  "connection db now s st =
     (joinCourseRooms db s (fst (connection_sync now s st)), snd (connection_sync now s st))"
  by (simp add: connection_def connection_sync_def Let_def)

lemma disconnect_as_sync:
  "disconnect db now s st =
     (disconnect_sync s st,
      broadcastStatusUpdate db (userId s) [(''status'', JStr ''offline''), (''lastSeen'', JStr now)])"
  by (simp add: disconnect_def disconnect_sync_def)

text \<open>An event of \<open>step\<close> is the schedule in which the store answers each task of the
  event before anything else happens.\<close>

lemma step_as_schedule:
  "schedule db (Submit s now a # replicate (awaits a) (Answer 0)) (st, [])
     = map_sum id (\<lambda>st'. (st', [])) (step db (s, now, a) st)"
proof (cases a)
  case Connect
  then show ?thesis
    by (simp add: step_def connection_as_sync connection_sync_def deliver_def
          deliver1_joinCourseRooms)
next
  case Disconnect
  then show ?thesis
    by (simp add: step_def disconnect_as_sync numeral_2_eq_2 deliver_def)
next
  case (JoinCourse c)
  then show ?thesis
    by (simp add: step_def deliver_def split: prod.splits)
next
  case (LeaveCourse c)
  then show ?thesis by (simp add: step_def split: prod.splits)
next
  case (TypingStart d)
  then show ?thesis by (cases "typing_start s d") (simp_all add: step_def)
next
  case (TypingStop d)
  then show ?thesis by (cases "typing_stop s d") (simp_all add: step_def)
next
  case (MessageRead d)
  then show ?thesis by (cases "message_read now s d") (simp_all add: step_def)
next
  case (StatusUpdate d)
  then show ?thesis by (simp add: step_def status_update_def deliver_def)
next
  case (FileShared d)
  then show ?thesis by (cases "file_shared now s d") (simp_all add: step_def)
next
  case (AnnouncementCreated d)
  then show ?thesis by (cases "announcement_created d") (simp_all add: step_def)
qed

lemma schedule_append:
  "schedule db (xs @ ys) cfg =
     (case schedule db xs cfg of Inl err \<Rightarrow> Inl err | Inr cfg' \<Rightarrow> schedule db ys cfg')"
  by (induction xs arbitrary: cfg) (simp_all split: sum.splits)

section \<open>Facts of the campus\<close>

lemma campus_cast [simp]:
  "cast campus alice_id = Some alice_id" "cast campus bob_id = Some bob_id"
  "cast campus rym_id = Some rym_id" "cast campus algo_id = Some algo_id"
  "cast campus nets_id = Some nets_id" "cast campus ''c9'' = None"
  by (simp_all add: campus_def hex_object_id_def alice_id_def bob_id_def rym_id_def
        algo_id_def nets_id_def)

lemma campus_ids [simp]:
  "alice_id \<noteq> bob_id" "bob_id \<noteq> alice_id" "alice_id \<noteq> rym_id" "rym_id \<noteq> alice_id"
  "bob_id \<noteq> rym_id" "rym_id \<noteq> bob_id" "algo_id \<noteq> nets_id" "nets_id \<noteq> algo_id"
  by (simp_all add: alice_id_def bob_id_def rym_id_def algo_id_def nets_id_def)

lemma campus_store [simp]:
  "reachable campus" "users campus = [alice, bob, root]" "courses campus = [algo, nets]"
  "inspect campus = plain_inspect"
  by (simp_all add: campus_def)

lemma campus_docs [simp]:
  "user_id alice = alice_id" "user_id bob = bob_id" "user_id root = rym_id"
  "role alice = Student" "role bob = Teacher" "role root = Admin"
  "department alice = Some ''Networks''" "department bob = Some ''Networks''"
  "department root = None"
  "enrolledCourses alice = [alice_algo]" "enrolledCourses bob = []" "enrolledCourses root = []"
  "firstName alice = ''Alice''" "lastName alice = ''Amrani''"
  "firstName bob = ''Bob''" "lastName bob = ''Belkacem''"
  "course_id algo = algo_id" "course_id nets = nets_id"
  "teacher algo = bob_id" "teacher nets = bob_id"
  "enrolledStudents algo = [alice_id]" "enrolledStudents nets = []"
  "course_name algo = ''Algorithms''" "course_name nets = ''Routing''"
  by (simp_all add: alice_def bob_def root_def algo_def nets_def)

lemma campus_sockets [simp]:
  "sock_id phone = ''s1''" "userId phone = alice_id" "user phone = alice"
  "sock_id laptop = ''s2''" "userId laptop = alice_id" "user laptop = alice"
  "sock_id desk = ''s3''" "userId desk = bob_id" "user desk = bob"
  "sock_id console = ''s4''" "userId console = rym_id" "user console = root"
  by (simp_all add: phone_def laptop_def desk_def console_def)

lemma campus_users:
  "User_findById campus alice_id = Reply (Some alice)"
  "User_findById campus bob_id = Reply (Some bob)"
  by (simp_all add: User_findById_def)

lemma campus_courses:
  "Course_findById campus algo_id = Reply (Some algo)"
  "Course_findById campus nets_id = Reply (Some nets)"
  "Course_findById campus ''c9'' = Threw"
  by (simp_all add: Course_findById_def)

lemma lecture_sockets: "sockets lecture = [desk, phone]"
  by (simp add: lecture_def)

lemma lecture_rooms:
  "rooms lecture ''s1'' = {''user_'' @ alice_id, ''course_'' @ algo_id, ''department_Networks''}"
  "rooms lecture ''s3'' = {''user_'' @ bob_id, ''course_'' @ algo_id, ''course_'' @ nets_id,
                            ''department_Networks''}"
  by (auto simp: lecture_def connected_def connection_def Let_def joinCourseRooms_def
        Course_find_def rooms_fold_join transport_open_def)

lemma relay_typing_algo:
  "relay ''t3'' phone (TypingStart typing_algo) =
     [(ToRoomExcept ''s1'' (''course_'' @ algo_id), ''user_typing'',
       JObj [(''userId'', JStr alice_id), (''userName'', JStr ''Alice Amrani''),
             (''courseId'', JStr algo_id), (''conversationType'', JStr ''course'')])]"
  "relay ''t4'' phone (TypingStop typing_algo) =
     [(ToRoomExcept ''s1'' (''course_'' @ algo_id), ''user_stopped_typing'',
       JObj [(''userId'', JStr alice_id), (''courseId'', JStr algo_id),
             (''conversationType'', JStr ''course'')])]"
  by (simp_all add: typing_start_def typing_stop_def typing_algo_def full_name_def algo_id_def)

lemma relay_read_file_algo:
  "relay ''t5'' phone (MessageRead read_algo) =
     [(ToRoomExcept ''s1'' (''course_'' @ algo_id), ''message_read_receipt'',
       JObj [(''messageId'', JStr ''m1''), (''readBy'', JStr alice_id), (''readAt'', JStr ''t5''),
             (''courseId'', JStr algo_id)])]"
  "relay ''t6'' phone (FileShared file_algo) =
     [(ToRoomExcept ''s1'' (''course_'' @ algo_id), ''file_shared'',
       JObj [(''fileInfo'', JObj [(''name'', JStr ''notes.pdf'')]),
             (''sharedBy'', JObj [(''id'', JStr alice_id), (''name'', JStr ''Alice Amrani''),
                                  (''role'', JStr ''student'')]),
             (''courseId'', JStr algo_id), (''timestamp'', JStr ''t6'')])]"
  by (simp_all add: message_read_def file_shared_def read_algo_def file_algo_def Let_def
        user_obj_def full_name_def algo_id_def)

text \<open>A room id that does not convert to text makes the relay handler throw before
  it emits.\<close>

lemma unprintable_throws: "to_str unprintable = Inl TypeError"
  by (simp add: unprintable_def)

lemma typing_unprintable_throws:
  "typing_start s typing_unprintable = Inl TypeError"
  "relay now s (TypingStart typing_unprintable) = []"
  by (simp_all add: typing_start_def typing_unprintable_def unprintable_def)

lemma lecture_reached: "schedule campus arriving (init, []) = Inr (lecture, [])"
proof -
  have 1: "schedule campus [Submit desk ''t1'' Connect, Answer 0] (init, [])
             = Inr (connected campus ''t1'' desk init, [])"
    using step_as_schedule[of campus desk "''t1''" Connect init] by (simp add: step_Connect)
  have 2: "schedule campus [Submit phone ''t2'' Connect, Answer 0]
             (connected campus ''t1'' desk init, []) = Inr (lecture, [])"
    using step_as_schedule[of campus phone "''t2''" Connect "connected campus ''t1'' desk init"]
    by (simp add: step_Connect lecture_def)
  have 3: "arriving = [Submit desk ''t1'' Connect, Answer 0] @ [Submit phone ''t2'' Connect, Answer 0]"
    by (simp add: arriving_def)
  show ?thesis unfolding 3 schedule_append 1 using 2 by simp
qed

lemma lecture_inbox_phone:
  "inbox lecture ''s1'' =
     [(''connected'',
       JObj [(''message'', JStr ''Connected to USTHB App''),
             (''user'', JObj [(''id'', JStr alice_id), (''name'', JStr ''Alice Amrani''),
                              (''role'', JStr ''student'')]),
             (''timestamp'', JStr ''t2'')])]"
  by (simp add: lecture_def connected_def inbox_deliver connection_def Let_def live_def
        user_obj_def full_name_def)

section \<open>Presence and the registry\<close>

text \<open>
  C1, as the code has it: \<^verbatim>\<open>connectedUsers\<close> keeps one socket id per user id, so
  \<open>isUserOnline\<close> agrees with the live connections of a principal on the traces in
  which no principal holds two connections at once. For every principal \<open>P\<close> and every
  admissible single-device trace run from the initial state, \<open>isUserOnline P\<close> is true
  if and only if \<open>P\<close> has a live connection.
\<close>

theorem isUserOnline_iff_live_single_device:
  assumes "single_device db evs init" and "run db evs init = Inr st"
  shows "isUserOnline st P \<longleftrightarrow> liveConnections st P \<noteq> []"
proof -
  have "registry_exact st"
    using registry_exact_run[OF registry_exact_init assms] .
  then have "\<And>sid. connectedUsers st P = Some sid \<longleftrightarrow>
               (\<exists>x \<in> set (sockets st). userId x = P \<and> sock_id x = sid)"
    by (simp add: registry_exact_def)
  then show ?thesis
    by (auto simp: isUserOnline_def liveConnections_def filter_empty_conv)
qed

text \<open>Witness for C1: the student connects on the phone, disconnects, and connects on
  the laptop.\<close>

theorem isUserOnline_iff_live_single_device_witness:
  "single_device campus
     [(phone, ''t1'', Connect), (phone, ''t2'', Disconnect), (laptop, ''t3'', Connect)] init
   \<and> run campus
       [(phone, ''t1'', Connect), (phone, ''t2'', Disconnect), (laptop, ''t3'', Connect)] init
      = Inr (connected campus ''t3'' laptop
              (disconnected campus ''t2'' phone (connected campus ''t1'' phone init)))
   \<and> (isUserOnline (connected campus ''t3'' laptop
                      (disconnected campus ''t2'' phone (connected campus ''t1'' phone init))) alice_id
       \<longleftrightarrow> liveConnections (connected campus ''t3'' laptop
                      (disconnected campus ''t2'' phone (connected campus ''t1'' phone init))) alice_id
            \<noteq> [])"
proof -
  have a: "single_device campus
     [(phone, ''t1'', Connect), (phone, ''t2'', Disconnect), (laptop, ''t3'', Connect)] init"
    by (simp add: step_Connect step_Disconnect)
  have b: "run campus
       [(phone, ''t1'', Connect), (phone, ''t2'', Disconnect), (laptop, ''t3'', Connect)] init
      = Inr (connected campus ''t3'' laptop
              (disconnected campus ''t2'' phone (connected campus ''t1'' phone init)))"
    by (simp add: step_Connect step_Disconnect)
  from isUserOnline_iff_live_single_device[OF a b, of alice_id] a b show ?thesis by simp
qed

text \<open>Counterexample to C1 as stated: with the phone and the laptop both connected,
  closing the phone deletes the principal's only registry entry while the laptop is
  still live.\<close>

theorem isUserOnline_two_devices_counterexample:
  "\<not> (isUserOnline (disconnected campus ''t3'' phone
                      (connected campus ''t2'' laptop (connected campus ''t1'' phone init))) alice_id
       \<longleftrightarrow> liveConnections (disconnected campus ''t3'' phone
                      (connected campus ''t2'' laptop (connected campus ''t1'' phone init))) alice_id
            \<noteq> [])"
  by (simp add: isUserOnline_def liveConnections_def)

text \<open>
  C2, as the code has it: when a principal has opened two connections \<open>c1\<close> and \<open>c2\<close>,
  disconnecting \<open>c1\<close> already makes \<open>isUserOnline\<close> false for the principal, although
  \<open>c2\<close> is still live, and requests the offline status broadcast; disconnecting \<open>c2\<close>
  leaves the principal offline and requests the same broadcast once more.
\<close>

theorem two_connections_first_disconnect_offline:
  assumes "userId c2 = userId c1" and "sock_id c2 \<noteq> sock_id c1"
  shows "let st2 = connected db t2 c2 (connected db t1 c1 st);
             st3 = disconnected db t3 c1 st2;
             st4 = disconnected db t4 c2 st3
         in \<not> isUserOnline st3 (userId c1)
            \<and> c2 \<in> set (liveConnections st3 (userId c1))
            \<and> snd (disconnect db t3 c1 (transport_close c1 st2)) =
                broadcastStatusUpdate db (userId c1)
                  [(''status'', JStr ''offline''), (''lastSeen'', JStr t3)]
            \<and> \<not> isUserOnline st4 (userId c1)
            \<and> snd (disconnect db t4 c2 (transport_close c2 st3)) =
                broadcastStatusUpdate db (userId c1)
                  [(''status'', JStr ''offline''), (''lastSeen'', JStr t4)]"
  using assms by (simp add: Let_def isUserOnline_def liveConnections_def disconnect_def)

text \<open>Witness for C2: the phone and the laptop of the same student.\<close>

theorem two_connections_first_disconnect_offline_witness:
  "userId laptop = userId phone \<and> sock_id laptop \<noteq> sock_id phone
   \<and> \<not> isUserOnline (disconnected campus ''t3'' phone
          (connected campus ''t2'' laptop (connected campus ''t1'' phone init))) (userId phone)
   \<and> laptop \<in> set (liveConnections (disconnected campus ''t3'' phone
          (connected campus ''t2'' laptop (connected campus ''t1'' phone init))) (userId phone))"
proof -
  have a: "userId laptop = userId phone" and b: "sock_id laptop \<noteq> sock_id phone"
    by simp_all
  from two_connections_first_disconnect_offline[OF a b, where db = campus and ?t1.0 = "''t1''"
         and ?t2.0 = "''t2''" and ?t3.0 = "''t3''" and ?t4.0 = "''t4''" and st = init] a b
  show ?thesis by (simp add: Let_def)
qed

text \<open>Counterexample to C2 as stated: after the handlers for connecting the phone,
  connecting the laptop and disconnecting the phone, the principal is not online,
  with the laptop still among the live sockets.\<close>

theorem first_disconnect_keeps_online_counterexample:
  "\<not> isUserOnline (fst (disconnect campus ''t3'' phone (transport_close phone
        (fst (connection campus ''t2'' laptop (transport_open laptop
          (fst (connection campus ''t1'' phone (transport_open phone init)))))))))
      (userId phone)
   \<and> laptop \<in> set (sockets (fst (disconnect campus ''t3'' phone (transport_close phone
        (fst (connection campus ''t2'' laptop (transport_open laptop
          (fst (connection campus ''t1'' phone (transport_open phone init))))))))))"
  by (simp add: isUserOnline_def connection_registry disconnect_registry)

text \<open>
  C6, as the code has it: running the disconnect handler a second time for the same
  connection raises nothing and leaves both registry maps as the first run left
  them; every run of the handler, a repeated one and one that leaves another
  connection of the principal live included, requests the offline status broadcast,
  which is not empty when the stored user has a department.
\<close>

theorem disconnect_twice_registry_idempotent_broadcast_repeated:
  "step db (s, t', Disconnect) (disconnected db t s st)
     = Inr (disconnected db t' s (disconnected db t s st))
   \<and> fst (disconnect db t' s (fst (disconnect db t s st))) = fst (disconnect db t s st)
   \<and> connectedUsers (disconnected db t' s (disconnected db t s st))
       = connectedUsers (disconnected db t s st)
   \<and> userSockets (disconnected db t' s (disconnected db t s st))
       = userSockets (disconnected db t s st)
   \<and> snd (disconnect db t s st) =
       broadcastStatusUpdate db (userId s) [(''status'', JStr ''offline''), (''lastSeen'', JStr t)]
   \<and> snd (disconnect db t' s (transport_close s (disconnected db t s st))) =
       broadcastStatusUpdate db (userId s) [(''status'', JStr ''offline''), (''lastSeen'', JStr t')]
   \<and> (\<forall>u. User_findById db (userId s) = Reply (Some u) \<and> present (department u)
          \<longrightarrow> snd (disconnect db t' s (transport_close s (disconnected db t s st))) \<noteq> [])"
  by (auto simp: step_Disconnect disconnect_def broadcastStatusUpdate_def
        split: option.splits)

text \<open>Witness for C6: the phone disconnects twice.\<close>

theorem disconnect_twice_registry_idempotent_broadcast_repeated_witness:
  "step campus (phone, ''t3'', Disconnect) (disconnected campus ''t2'' phone lecture)
     = Inr (disconnected campus ''t3'' phone (disconnected campus ''t2'' phone lecture))
   \<and> User_findById campus (userId phone) = Reply (Some alice) \<and> present (department alice)
   \<and> snd (disconnect campus ''t3'' phone
            (transport_close phone (disconnected campus ''t2'' phone lecture))) \<noteq> []"
proof -
  have a: "User_findById campus (userId phone) = Reply (Some alice)"
    by (simp add: campus_users)
  have b: "present (department alice)" by simp
  from disconnect_twice_registry_idempotent_broadcast_repeated
         [of campus phone "''t3''" "''t2''" lecture] a b
  show ?thesis by blast
qed

text \<open>Counterexample to C6 as stated: with the phone and the laptop of one student
  connected, disconnecting the phone emits the offline status update, to the room
  named after the printed enrollment and to the department room, although the laptop
  remains a live connection of that student.\<close>

theorem offline_emitted_while_connection_remains_counterexample:
  "snd (disconnect campus ''t3'' phone (transport_close phone
          (connected campus ''t2'' laptop (connected campus ''t1'' phone init))))
   = [(ToRoom (''course_'' @ inspect campus alice_algo), ''user_status_update'',
        JObj [(''userId'', JStr alice_id), (''status'', JStr ''offline''),
              (''lastSeen'', JStr ''t3'')]),
      (ToRoom ''department_Networks'', ''user_status_update'',
        JObj [(''userId'', JStr alice_id), (''status'', JStr ''offline''),
              (''lastSeen'', JStr ''t3'')])]
   \<and> liveConnections (disconnected campus ''t3'' phone
          (connected campus ''t2'' laptop (connected campus ''t1'' phone init))) alice_id = [laptop]"
  by (simp add: disconnect_def broadcastStatusUpdate_def campus_users liveConnections_def)

text \<open>
  C4, as the code has it: connecting emits no status update. On every disconnect,
  whatever the role, exactly one \<^verbatim>\<open>user_status_update\<close> is emitted to the department
  room when the stored user has a department. Emissions beyond that one are made
  only when the stored user's role is student; for a teacher or an admin the
  department emission is the only one, so that no course room receives their status.
  Every emission carries the principal's id and the status offline.
\<close>

theorem status_update_department_once_courses_students_only:
  "(\<forall>em \<in> set (snd (connection db now s st)). fst (snd em) \<noteq> ''user_status_update'')
   \<and> (\<forall>u. User_findById db (userId s) = Reply (Some u) \<and> role u \<noteq> Student \<longrightarrow>
         map fst (snd (disconnect db now s st)) =
           (if present (department u) then [ToRoom (''department_'' @ the (department u))]
            else []))
   \<and> (\<forall>u. User_findById db (userId s) = Reply (Some u) \<and> present (department u) \<longrightarrow>
         filter (\<lambda>em. fst em = ToRoom (''department_'' @ the (department u)))
                (snd (disconnect db now s st))
           = [(ToRoom (''department_'' @ the (department u)), ''user_status_update'',
               JObj [(''userId'', JStr (userId s)), (''status'', JStr ''offline''),
                     (''lastSeen'', JStr now)])])
   \<and> (\<forall>em \<in> set (snd (disconnect db now s st)).
         snd em = (''user_status_update'',
                   JObj [(''userId'', JStr (userId s)), (''status'', JStr ''offline''),
                         (''lastSeen'', JStr now)]))"
proof (intro conjI)
  show "\<forall>em \<in> set (snd (connection db now s st)). fst (snd em) \<noteq> ''user_status_update''"
    by (simp add: connection_def Let_def)
  show "\<forall>u. User_findById db (userId s) = Reply (Some u) \<and> role u \<noteq> Student \<longrightarrow>
         map fst (snd (disconnect db now s st)) =
           (if present (department u) then [ToRoom (''department_'' @ the (department u))]
            else [])"
    by (auto simp: disconnect_def broadcastStatusUpdate_def split: option.splits)
  show "\<forall>u. User_findById db (userId s) = Reply (Some u) \<and> present (department u) \<longrightarrow>
         filter (\<lambda>em. fst em = ToRoom (''department_'' @ the (department u)))
                (snd (disconnect db now s st))
           = [(ToRoom (''department_'' @ the (department u)), ''user_status_update'',
               JObj [(''userId'', JStr (userId s)), (''status'', JStr ''offline''),
                     (''lastSeen'', JStr now)])]"
    by (auto simp: disconnect_def broadcastStatusUpdate_def filter_empty_conv
          split: option.splits)
  show "\<forall>em \<in> set (snd (disconnect db now s st)).
         snd em = (''user_status_update'',
                   JObj [(''userId'', JStr (userId s)), (''status'', JStr ''offline''),
                         (''lastSeen'', JStr now)])"
    by (auto simp: disconnect_def broadcastStatusUpdate_def split: reply.splits option.splits)
qed

text \<open>Witness for C4: the teacher at the desk and the student on the phone.\<close>

theorem status_update_department_once_courses_students_only_witness:
  "User_findById campus (userId desk) = Reply (Some bob) \<and> role bob \<noteq> Student
   \<and> present (department bob)
   \<and> map fst (snd (disconnect campus ''t1'' desk init)) = [ToRoom ''department_Networks'']
   \<and> User_findById campus (userId phone) = Reply (Some alice) \<and> present (department alice)
   \<and> filter (\<lambda>em. fst em = ToRoom ''department_Networks'') (snd (disconnect campus ''t1'' phone init))
       = [(ToRoom ''department_Networks'', ''user_status_update'',
           JObj [(''userId'', JStr alice_id), (''status'', JStr ''offline''),
                 (''lastSeen'', JStr ''t1'')])]
   \<and> map (\<lambda>em. fst (snd em)) (snd (connection campus ''t1'' desk init)) = [''connected'']"
proof -
  have a: "User_findById campus (userId desk) = Reply (Some bob)"
    "User_findById campus (userId phone) = Reply (Some alice)"
    by (simp_all add: campus_users)
  have b: "role bob \<noteq> Student" "present (department bob)" "present (department alice)"
    by simp_all
  have d: "map (\<lambda>em. fst (snd em)) (snd (connection campus ''t1'' desk init)) = [''connected'']"
    by (simp add: connection_def Let_def)
  from status_update_department_once_courses_students_only[of campus "''t1''" desk init]
       status_update_department_once_courses_students_only[of campus "''t1''" phone init] a b d
  show ?thesis by simp
qed

text \<open>Counterexample to C4 as stated: the teacher is subscribed to the room of the
  course he teaches, connecting him emits only the \<^verbatim>\<open>connected\<close> confirmation, and
  disconnecting him emits a single status update, to the department room, none to
  the course room.\<close>

theorem teacher_status_update_skips_courses_counterexample:
  "''course_'' @ algo_id \<in> rooms (connected campus ''t1'' desk init) ''s3''
   \<and> snd (connection campus ''t1'' desk (transport_open desk init))
      = [(ToSocket ''s3'', ''connected'',
          JObj [(''message'', JStr ''Connected to USTHB App''),
                (''user'', JObj [(''id'', JStr bob_id), (''name'', JStr ''Bob Belkacem''),
                                 (''role'', JStr ''teacher'')]),
                (''timestamp'', JStr ''t1'')])]
   \<and> snd (disconnect campus ''t2'' desk (transport_close desk (connected campus ''t1'' desk init)))
      = [(ToRoom ''department_Networks'', ''user_status_update'',
          JObj [(''userId'', JStr bob_id), (''status'', JStr ''offline''),
                (''lastSeen'', JStr ''t2'')])]"
  by (simp add: connected_def connection_def Let_def joinCourseRooms_def Course_find_def
        rooms_fold_join transport_open_def user_obj_def full_name_def
        disconnect_def broadcastStatusUpdate_def campus_users)

section \<open>Joining channels\<close>

text \<open>
  C5, as the code has it: for every principal and every course id the client sends,
  \<^verbatim>\<open>join_course\<close> answers \<^verbatim>\<open>Failed to join course\<close> and joins nothing when the
  mapper rejects the id or the store does not answer; answers \<^verbatim>\<open>Course not found\<close>
  and joins nothing when the id is cast and no course has it; answers
  \<^verbatim>\<open>Not authorized to join this course\<close> and joins nothing when the principal is a
  student or a teacher who is neither enrolled in the course nor its teacher; and
  joins the course room, confirms with \<^verbatim>\<open>course_joined\<close> and notifies the room
  whenever the principal is enrolled, teaches the course or is an admin.
\<close>

theorem join_course_failed_not_found_forbidden_or_joined:
  "((\<not> reachable db \<or> cast db cid = None) \<longrightarrow>
      join_course db s cid st = (st, [error_msg s ''Failed to join course'']))
   \<and> (\<forall>i. reachable db \<and> cast db cid = Some i
           \<and> find (\<lambda>c. course_id c = i) (courses db) = None \<longrightarrow>
      join_course db s cid st = (st, [error_msg s ''Course not found'']))
   \<and> (\<forall>i c. reachable db \<and> cast db cid = Some i
           \<and> find (\<lambda>c. course_id c = i) (courses db) = Some c
           \<and> role (user s) \<in> {Student, Teacher}
           \<and> userId s \<notin> set (enrolledStudents c) \<and> teacher c \<noteq> userId s \<longrightarrow>
      join_course db s cid st = (st, [error_msg s ''Not authorized to join this course'']))
   \<and> (\<forall>i c. reachable db \<and> cast db cid = Some i
           \<and> find (\<lambda>c. course_id c = i) (courses db) = Some c
           \<and> (userId s \<in> set (enrolledStudents c) \<or> teacher c = userId s \<or> role (user s) = Admin) \<longrightarrow>
      fst (join_course db s cid st) = join s (''course_'' @ cid) st
      \<and> ''course_'' @ cid \<in> rooms (fst (join_course db s cid st)) (sock_id s)
      \<and> map (\<lambda>em. (fst em, fst (snd em))) (snd (join_course db s cid st))
          = [(ToSocket (sock_id s), ''course_joined''),
             (ToRoomExcept (sock_id s) (''course_'' @ cid), ''user_joined_course'')])"
  by (auto simp: join_course_def Course_findById_def Let_def)

text \<open>Witness for C5: an id the mapper rejects; a well-formed id of no course; the
  student and a course she is not enrolled in; the enrolled student, the teacher and
  the admin.\<close>

theorem join_course_failed_not_found_forbidden_or_joined_witness:
  "cast campus ''c9'' = None
   \<and> join_course campus phone ''c9'' init = (init, [error_msg phone ''Failed to join course''])
   \<and> reachable campus \<and> cast campus ghost_id = Some ghost_id
   \<and> ghost_id \<notin> set (map course_id (courses campus))
   \<and> join_course campus phone ghost_id init = (init, [error_msg phone ''Course not found''])
   \<and> cast campus nets_id = Some nets_id \<and> role (user phone) \<in> {Student, Teacher}
   \<and> userId phone \<notin> set (enrolledStudents nets) \<and> teacher nets \<noteq> userId phone
   \<and> join_course campus phone nets_id init
       = (init, [error_msg phone ''Not authorized to join this course''])
   \<and> cast campus algo_id = Some algo_id \<and> userId phone \<in> set (enrolledStudents algo)
   \<and> ''course_'' @ algo_id \<in> rooms (fst (join_course campus phone algo_id init)) (sock_id phone)
   \<and> teacher nets = userId desk
   \<and> ''course_'' @ nets_id \<in> rooms (fst (join_course campus desk nets_id init)) (sock_id desk)
   \<and> role (user console) = Admin
   \<and> ''course_'' @ nets_id \<in> rooms (fst (join_course campus console nets_id init)) (sock_id console)"
proof -
  have g: "cast campus ghost_id = Some ghost_id"
    by (simp add: campus_def hex_object_id_def ghost_id_def)
  have f: "find (\<lambda>c. course_id c = ghost_id) (courses campus) = None"
    "find (\<lambda>c. course_id c = nets_id) (courses campus) = Some nets"
    "find (\<lambda>c. course_id c = algo_id) (courses campus) = Some algo"
    "ghost_id \<notin> set (map course_id (courses campus))"
    by (simp_all add: ghost_id_def algo_id_def nets_id_def)
  have b: "role (user phone) \<in> {Student, Teacher}" "userId phone \<notin> set (enrolledStudents nets)"
    "teacher nets \<noteq> userId phone" "userId phone \<in> set (enrolledStudents algo)"
    "teacher nets = userId desk" "role (user console) = Admin"
    by simp_all
  from join_course_failed_not_found_forbidden_or_joined[of campus "''c9''" phone init]
       join_course_failed_not_found_forbidden_or_joined[of campus ghost_id phone init]
       join_course_failed_not_found_forbidden_or_joined[of campus nets_id phone init]
       join_course_failed_not_found_forbidden_or_joined[of campus algo_id phone init]
       join_course_failed_not_found_forbidden_or_joined[of campus nets_id desk init]
       join_course_failed_not_found_forbidden_or_joined[of campus nets_id console init]
       g f b
  show ?thesis by simp
qed

text \<open>Counterexample to C5 as stated: the store holds no course with id \<^verbatim>\<open>c9\<close>, and
  the student who asks to join it is answered \<^verbatim>\<open>Failed to join course\<close>, not
  \<^verbatim>\<open>Course not found\<close>, because the mapper rejects the id before the store is
  asked.\<close>

theorem join_unknown_malformed_id_not_reported_not_found_counterexample:
  "''c9'' \<notin> set (map course_id (courses campus))
   \<and> join_course campus phone ''c9'' init
       = (init, [(ToSocket ''s1'', ''error'',
                  JObj [(''message'', JStr ''Failed to join course'')])])"
  by (simp add: join_course_def campus_courses error_msg_def algo_id_def nets_id_def)

text \<open>
  C7: when a principal with role admin connects and the store answers, the
  connection's course channels are exactly the rooms of the courses in the store, so
  their number is the store's course count (course ids being distinct).
\<close>

theorem admin_connect_joins_every_course:
  assumes "role (user s) = Admin" and "reachable db"
    and "distinct (map course_id (courses db))"
  shows "course_channels (connected db now s st) (sock_id s)
           = (\<lambda>c. ''course_'' @ course_id c) ` set (courses db)
         \<and> card (course_channels (connected db now s st) (sock_id s)) = length (courses db)"
proof -
  have eq: "course_channels (connected db now s st) (sock_id s)
           = (\<lambda>c. ''course_'' @ course_id c) ` set (courses db)"
    unfolding course_channels_def rooms_connected_admin[OF assms(1,2)]
    by (auto split: option.splits if_splits)
  have "(\<lambda>c. ''course_'' @ course_id c) ` set (courses db)
          = ((@) ''course_'') ` set (map course_id (courses db))"
    by auto
  moreover have "card (((@) ''course_'') ` set (map course_id (courses db)))
          = card (set (map course_id (courses db)))"
    by (rule card_image) (simp add: inj_on_def)
  moreover have "card (set (map course_id (courses db))) = length (courses db)"
    using distinct_card[OF assms(3)] by simp
  ultimately have "card ((\<lambda>c. ''course_'' @ course_id c) ` set (courses db)) = length (courses db)"
    by (simp only:)
  with eq show ?thesis by simp
qed

text \<open>Witness for C7: the administrator connects to the campus of two courses.\<close>

theorem admin_connect_joins_every_course_witness:
  "role (user console) = Admin \<and> reachable campus \<and> distinct (map course_id (courses campus))
   \<and> course_channels (connected campus ''t1'' console init) (sock_id console)
       = {''course_'' @ algo_id, ''course_'' @ nets_id}
   \<and> card (course_channels (connected campus ''t1'' console init) (sock_id console)) = 2"
proof -
  have a: "role (user console) = Admin" by simp
  have b: "reachable campus" by simp
  have c: "distinct (map course_id (courses campus))" by simp
  from admin_connect_joins_every_course[OF a b c, of "''t1''" init] a b c
  show ?thesis by auto
qed

section \<open>The ephemeral signal relay\<close>




text \<open>
  C9: in every relayed signal the field naming the acting principal (\<^verbatim>\<open>userId\<close> in
  \<^verbatim>\<open>user_typing\<close> and \<^verbatim>\<open>user_stopped_typing\<close>, \<^verbatim>\<open>readBy\<close> in
  \<^verbatim>\<open>message_read_receipt\<close>, \<^verbatim>\<open>sharedBy.id\<close> in \<^verbatim>\<open>file_shared\<close>) is the
  \<^verbatim>\<open>userId\<close> of the source socket, whatever the payload says: any two signals relayed
  for the same socket carry the same actor.
\<close>

theorem relayed_actor_is_socket_user:
  assumes "em \<in> set (relay now s a)" and "em' \<in> set (relay now' s a')"
  shows "actor em = JStr (userId s) \<and> actor em' = actor em"
proof -
  have "actor x = JStr (userId s)" if "x \<in> set (relay t s b)" for x t b
    using that
    by (cases b) (auto simp: typing_start_def typing_stop_def message_read_def file_shared_def
                     Let_def user_obj_def split: if_splits sum.splits)
  with assms show ?thesis by simp
qed

text \<open>Witness for C9: on the student's phone, a typing payload that names the teacher
  and a read payload that names the administrator.\<close>

theorem relayed_actor_is_socket_user_witness:
  "(ToRoomExcept ''s1'' (''course_'' @ nets_id), ''user_typing'',
      JObj [(''userId'', JStr alice_id), (''userName'', JStr ''Alice Amrani''),
            (''courseId'', JStr nets_id), (''conversationType'', JStr ''course'')])
     \<in> set (relay ''t3'' phone (TypingStart typing_nets_as_bob))
   \<and> (ToRoomExcept ''s1'' (''user_'' @ bob_id), ''message_read_receipt'',
      JObj [(''messageId'', JStr ''m1''), (''readBy'', JStr alice_id), (''readAt'', JStr ''t4'')])
     \<in> set (relay ''t4'' phone (MessageRead read_as_root))
   \<and> field typing_nets_as_bob ''userId'' = JStr bob_id \<and> field read_as_root ''readBy'' = JStr rym_id
   \<and> actor (ToRoomExcept ''s1'' (''course_'' @ nets_id), ''user_typing'',
      JObj [(''userId'', JStr alice_id), (''userName'', JStr ''Alice Amrani''),
            (''courseId'', JStr nets_id), (''conversationType'', JStr ''course'')]) = JStr (userId phone)
   \<and> actor (ToRoomExcept ''s1'' (''user_'' @ bob_id), ''message_read_receipt'',
      JObj [(''messageId'', JStr ''m1''), (''readBy'', JStr alice_id), (''readAt'', JStr ''t4'')])
      = actor (ToRoomExcept ''s1'' (''course_'' @ nets_id), ''user_typing'',
      JObj [(''userId'', JStr alice_id), (''userName'', JStr ''Alice Amrani''),
            (''courseId'', JStr nets_id), (''conversationType'', JStr ''course'')])"
proof -
  have a: "(ToRoomExcept ''s1'' (''course_'' @ nets_id), ''user_typing'',
      JObj [(''userId'', JStr alice_id), (''userName'', JStr ''Alice Amrani''),
            (''courseId'', JStr nets_id), (''conversationType'', JStr ''course'')])
     \<in> set (relay ''t3'' phone (TypingStart typing_nets_as_bob))"
    by (simp add: typing_start_def typing_nets_as_bob_def full_name_def nets_id_def)
  have b: "(ToRoomExcept ''s1'' (''user_'' @ bob_id), ''message_read_receipt'',
      JObj [(''messageId'', JStr ''m1''), (''readBy'', JStr alice_id), (''readAt'', JStr ''t4'')])
     \<in> set (relay ''t4'' phone (MessageRead read_as_root))"
    by (simp add: message_read_def read_as_root_def Let_def bob_id_def)
  have c: "field typing_nets_as_bob ''userId'' = JStr bob_id"
    "field read_as_root ''readBy'' = JStr rym_id"
    by (simp_all add: typing_nets_as_bob_def read_as_root_def)
  from relayed_actor_is_socket_user[OF a b] a b c show ?thesis by simp
qed

text \<open>
  C8, as the code has it: for a source socket \<open>S\<close> and a target socket id \<open>T\<close>, when
  \<open>S\<close> submits a typing, read-receipt or file-shared signal, anything is scheduled
  after it, and \<open>S\<close> submits a second such signal, then in the inbox of \<open>T\<close> what
  the first signal delivered to \<open>T\<close> comes before what the second delivered to \<open>T\<close>,
  whatever else arrived in between or afterwards; such a signal leaves nothing
  waiting for the store. This does not extend to a status
  update, whose broadcast is emitted only when the store has answered the lookup it
  waits for. Nothing is said about the order between signals of different sources.
\<close>

theorem relay_fifo_per_source_and_target:
  assumes "signal a1" and "signal a2"
    and "tick db (Submit S t1 a1) (st, w) = Inr (st1, w1)"
    and "schedule db mid (st1, w1) = Inr (st2, w2)"
    and "tick db (Submit S t2 a2) (st2, w2) = Inr (st3, w3)"
    and "schedule db post (st3, w3) = Inr (st4, w4)"
  shows "w1 = w \<and> w3 = w2
         \<and> (\<exists>xs ys. inbox st4 T =
           inbox st T
           @ map snd (filter (\<lambda>em. receives st (fst em) T) (relay t1 S a1))
           @ xs
           @ map snd (filter (\<lambda>em. receives st2 (fst em) T) (relay t2 S a2))
           @ ys)"
proof -
  from tick_signal(1)[OF assms(1,3)]
  have 1: "inbox st1 T = inbox st T @ map snd (filter (\<lambda>em. receives st (fst em) T) (relay t1 S a1))"
    by (simp add: inbox_deliver)
  from inbox_schedule[OF assms(4), of T] obtain xs where 2: "inbox st2 T = inbox st1 T @ xs"
    by auto
  from tick_signal(1)[OF assms(2,5)]
  have 3: "inbox st3 T = inbox st2 T @ map snd (filter (\<lambda>em. receives st2 (fst em) T) (relay t2 S a2))"
    by (simp add: inbox_deliver)
  from inbox_schedule[OF assms(6), of T] obtain ys where 4: "inbox st4 T = inbox st3 T @ ys"
    by auto
  from 1 2 3 4 have "inbox st4 T =
           inbox st T
           @ map snd (filter (\<lambda>em. receives st (fst em) T) (relay t1 S a1))
           @ xs
           @ map snd (filter (\<lambda>em. receives st2 (fst em) T) (relay t2 S a2))
           @ ys" by simp
  with tick_signal(2)[OF assms(1,3)] tick_signal(2)[OF assms(2,5)] show ?thesis by blast
qed

text \<open>Witness for C8: the student's phone submits \<^verbatim>\<open>typing_start\<close> and then
  \<^verbatim>\<open>typing_stop\<close> for the first course, and likewise a read receipt and then a
  shared file; the teacher's socket, in the room of that course, receives
  \<^verbatim>\<open>user_typing\<close> before \<^verbatim>\<open>user_stopped_typing\<close>, and
  \<^verbatim>\<open>message_read_receipt\<close> before \<^verbatim>\<open>file_shared\<close>.\<close>

theorem relay_fifo_per_source_and_target_witness:
  "signal (TypingStart typing_algo) \<and> signal (TypingStop typing_algo)
   \<and> tick campus (Submit phone ''t3'' (TypingStart typing_algo)) (lecture, [])
        = Inr (deliver (relay ''t3'' phone (TypingStart typing_algo)) lecture, [])
   \<and> tick campus (Submit phone ''t4'' (TypingStop typing_algo))
          (deliver (relay ''t3'' phone (TypingStart typing_algo)) lecture, [])
        = Inr (deliver (relay ''t4'' phone (TypingStop typing_algo))
                (deliver (relay ''t3'' phone (TypingStart typing_algo)) lecture), [])
   \<and> (\<exists>xs ys. inbox (deliver (relay ''t4'' phone (TypingStop typing_algo))
                (deliver (relay ''t3'' phone (TypingStart typing_algo)) lecture)) ''s3''
         = inbox lecture ''s3''
           @ [(''user_typing'',
               JObj [(''userId'', JStr alice_id), (''userName'', JStr ''Alice Amrani''),
                     (''courseId'', JStr algo_id), (''conversationType'', JStr ''course'')])]
           @ xs
           @ [(''user_stopped_typing'',
               JObj [(''userId'', JStr alice_id), (''courseId'', JStr algo_id),
                     (''conversationType'', JStr ''course'')])]
           @ ys)
   \<and> signal (MessageRead read_algo) \<and> signal (FileShared file_algo)
   \<and> tick campus (Submit phone ''t5'' (MessageRead read_algo)) (lecture, [])
        = Inr (deliver (relay ''t5'' phone (MessageRead read_algo)) lecture, [])
   \<and> tick campus (Submit phone ''t6'' (FileShared file_algo))
          (deliver (relay ''t5'' phone (MessageRead read_algo)) lecture, [])
        = Inr (deliver (relay ''t6'' phone (FileShared file_algo))
                (deliver (relay ''t5'' phone (MessageRead read_algo)) lecture), [])
   \<and> (\<exists>xs ys. inbox (deliver (relay ''t6'' phone (FileShared file_algo))
                (deliver (relay ''t5'' phone (MessageRead read_algo)) lecture)) ''s3''
         = inbox lecture ''s3''
           @ [(''message_read_receipt'',
               JObj [(''messageId'', JStr ''m1''), (''readBy'', JStr alice_id),
                     (''readAt'', JStr ''t5''), (''courseId'', JStr algo_id)])]
           @ xs
           @ [(''file_shared'',
               JObj [(''fileInfo'', JObj [(''name'', JStr ''notes.pdf'')]),
                     (''sharedBy'', JObj [(''id'', JStr alice_id), (''name'', JStr ''Alice Amrani''),
                                          (''role'', JStr ''student'')]),
                     (''courseId'', JStr algo_id), (''timestamp'', JStr ''t6'')])]
           @ ys)"
proof -
  have a: "signal (TypingStart typing_algo)" and b: "signal (TypingStop typing_algo)" by simp_all
  have c: "tick campus (Submit phone ''t3'' (TypingStart typing_algo)) (lecture, [])
        = Inr (deliver (relay ''t3'' phone (TypingStart typing_algo)) lecture, [])"
    by (rule tick_relay) (simp_all add: typing_start_def typing_algo_def)
  have d: "schedule campus [] (deliver (relay ''t3'' phone (TypingStart typing_algo)) lecture, [])
        = Inr (deliver (relay ''t3'' phone (TypingStart typing_algo)) lecture, [])" by simp
  have e: "tick campus (Submit phone ''t4'' (TypingStop typing_algo))
          (deliver (relay ''t3'' phone (TypingStart typing_algo)) lecture, [])
        = Inr (deliver (relay ''t4'' phone (TypingStop typing_algo))
                (deliver (relay ''t3'' phone (TypingStart typing_algo)) lecture), [])"
    by (rule tick_relay) (simp_all add: typing_stop_def typing_algo_def)
  have f: "schedule campus [] (deliver (relay ''t4'' phone (TypingStop typing_algo))
                (deliver (relay ''t3'' phone (TypingStart typing_algo)) lecture), [])
        = Inr (deliver (relay ''t4'' phone (TypingStop typing_algo))
                (deliver (relay ''t3'' phone (TypingStart typing_algo)) lecture), [])" by simp
  have a': "signal (MessageRead read_algo)" and b': "signal (FileShared file_algo)" by simp_all
  have c': "tick campus (Submit phone ''t5'' (MessageRead read_algo)) (lecture, [])
        = Inr (deliver (relay ''t5'' phone (MessageRead read_algo)) lecture, [])"
    by (rule tick_relay) (simp_all add: message_read_def read_algo_def Let_def)
  have d': "schedule campus [] (deliver (relay ''t5'' phone (MessageRead read_algo)) lecture, [])
        = Inr (deliver (relay ''t5'' phone (MessageRead read_algo)) lecture, [])" by simp
  have e': "tick campus (Submit phone ''t6'' (FileShared file_algo))
          (deliver (relay ''t5'' phone (MessageRead read_algo)) lecture, [])
        = Inr (deliver (relay ''t6'' phone (FileShared file_algo))
                (deliver (relay ''t5'' phone (MessageRead read_algo)) lecture), [])"
    by (rule tick_relay) (simp_all add: file_shared_def file_algo_def Let_def)
  have f': "schedule campus [] (deliver (relay ''t6'' phone (FileShared file_algo))
                (deliver (relay ''t5'' phone (MessageRead read_algo)) lecture), [])
        = Inr (deliver (relay ''t6'' phone (FileShared file_algo))
                (deliver (relay ''t5'' phone (MessageRead read_algo)) lecture), [])" by simp
  have 1: "\<exists>xs ys. inbox (deliver (relay ''t4'' phone (TypingStop typing_algo))
                (deliver (relay ''t3'' phone (TypingStart typing_algo)) lecture)) ''s3''
         = inbox lecture ''s3''
           @ [(''user_typing'',
               JObj [(''userId'', JStr alice_id), (''userName'', JStr ''Alice Amrani''),
                     (''courseId'', JStr algo_id), (''conversationType'', JStr ''course'')])]
           @ xs
           @ [(''user_stopped_typing'',
               JObj [(''userId'', JStr alice_id), (''courseId'', JStr algo_id),
                     (''conversationType'', JStr ''course'')])]
           @ ys"
    using relay_fifo_per_source_and_target[OF a b c d e f, of "''s3''"]
    by (simp add: relay_typing_algo live_def lecture_sockets lecture_rooms del: relay.simps)
  have 2: "\<exists>xs ys. inbox (deliver (relay ''t6'' phone (FileShared file_algo))
                (deliver (relay ''t5'' phone (MessageRead read_algo)) lecture)) ''s3''
         = inbox lecture ''s3''
           @ [(''message_read_receipt'',
               JObj [(''messageId'', JStr ''m1''), (''readBy'', JStr alice_id),
                     (''readAt'', JStr ''t5''), (''courseId'', JStr algo_id)])]
           @ xs
           @ [(''file_shared'',
               JObj [(''fileInfo'', JObj [(''name'', JStr ''notes.pdf'')]),
                     (''sharedBy'', JObj [(''id'', JStr alice_id), (''name'', JStr ''Alice Amrani''),
                                          (''role'', JStr ''student'')]),
                     (''courseId'', JStr algo_id), (''timestamp'', JStr ''t6'')])]
           @ ys"
    using relay_fifo_per_source_and_target[OF a' b' c' d' e' f', of "''s3''"]
    by (simp add: relay_read_file_algo live_def lecture_sockets lecture_rooms del: relay.simps)
  from a b c e 1 a' b' c' e' 2 show ?thesis by (simp only: simp_thms)
qed

text \<open>Counterexample to C8 as stated: from the initial state the teacher and the
  student connect; the teacher at the desk submits a status update and then a typing
  signal for the first course. The student's phone is in the department room and in
  the course room, so both scopes include it. The store answers the lookup of the
  status broadcast after the typing signal has been handled, and the phone receives
  \<^verbatim>\<open>user_typing\<close> before \<^verbatim>\<open>user_status_update\<close>.\<close>

theorem status_update_overtaken_by_typing_counterexample:
  "receives lecture (ToRoom ''department_Networks'') ''s1''
   \<and> receives lecture (ToRoomExcept ''s3'' (''course_'' @ algo_id)) ''s1''
   \<and> \<not> isl (schedule campus overtaking (init, []))
   \<and> inbox (fst (projr (schedule campus overtaking (init, [])))) ''s1''
      = [(''connected'',
          JObj [(''message'', JStr ''Connected to USTHB App''),
                (''user'', JObj [(''id'', JStr alice_id), (''name'', JStr ''Alice Amrani''),
                                 (''role'', JStr ''student'')]),
                (''timestamp'', JStr ''t2'')]),
         (''user_typing'',
          JObj [(''userId'', JStr bob_id), (''userName'', JStr ''Bob Belkacem''),
                (''courseId'', JStr algo_id), (''conversationType'', JStr ''course'')]),
         (''user_status_update'',
          JObj [(''userId'', JStr bob_id), (''status'', JStr ''away''),
                (''lastSeen'', JStr ''t3'')])]"
proof -
  have r: "receives lecture (ToRoom ''department_Networks'') ''s1''"
    "receives lecture (ToRoomExcept ''s3'' (''course_'' @ algo_id)) ''s1''"
    by (simp_all add: live_def lecture_sockets lecture_rooms)
  have t: "typing_start desk typing_algo
      = Inr [(ToRoomExcept ''s3'' (''course_'' @ algo_id), ''user_typing'',
              JObj [(''userId'', JStr bob_id), (''userName'', JStr ''Bob Belkacem''),
                    (''courseId'', JStr algo_id), (''conversationType'', JStr ''course'')])]"
    by (simp add: typing_start_def typing_algo_def full_name_def algo_id_def)
  have b: "broadcastStatusUpdate campus bob_id [(''status'', JStr ''away''), (''lastSeen'', JStr ''t3'')]
      = [(ToRoom ''department_Networks'', ''user_status_update'',
          JObj [(''userId'', JStr bob_id), (''status'', JStr ''away''),
                (''lastSeen'', JStr ''t3'')])]"
    by (simp add: broadcastStatusUpdate_def campus_users)
  have s: "schedule campus overtaking (init, [])
      = Inr (deliver [(ToRoom ''department_Networks'', ''user_status_update'',
                       JObj [(''userId'', JStr bob_id), (''status'', JStr ''away''),
                             (''lastSeen'', JStr ''t3'')])]
              (deliver [(ToRoomExcept ''s3'' (''course_'' @ algo_id), ''user_typing'',
                         JObj [(''userId'', JStr bob_id), (''userName'', JStr ''Bob Belkacem''),
                               (''courseId'', JStr algo_id),
                               (''conversationType'', JStr ''course'')])]
                (deliver [] lecture)), [])"
    by (simp add: overtaking_def schedule_append lecture_reached t b)
  from r show ?thesis
    by (simp add: s inbox_deliver lecture_inbox_phone)
qed

section \<open>Announcements\<close>

text \<open>
  C10, as the code has it: for every \<^verbatim>\<open>announcement_created\<close> event whose payload
  carries an announcement, the scope is chosen by a fixed precedence. With type
  \<^verbatim>\<open>general\<close> the announcement goes to every connection; otherwise, with a
  department set, it goes to that department's room only, also when a course is set;
  the course room is used only when the type is not \<^verbatim>\<open>general\<close> and no department
  is set. The room of a department or course is named by the text its value converts
  to; when the value chosen by the precedence does not convert to text, the handler
  throws and the announcement is delivered to nobody.
\<close>

theorem announcement_scope_precedence:
  assumes "\<not> nullish d" and "\<not> nullish (field d ''announcement'')"
  shows "(field (field d ''announcement'') ''type'' = JStr ''general'' \<longrightarrow>
            announcement_created d = Inr [(ToAll, ''new_announcement'', field d ''announcement'')]
            \<and> (\<forall>x \<in> set (sockets st). receives st ToAll (sock_id x)))
       \<and> (\<forall>r. field (field d ''announcement'') ''type'' \<noteq> JStr ''general''
            \<and> truthy (field (field d ''announcement'') ''department'')
            \<and> to_str (field (field d ''announcement'') ''department'') = Inr r \<longrightarrow>
            announcement_created d =
              Inr [(ToRoom (''department_'' @ r), ''new_announcement'', field d ''announcement'')])
       \<and> (\<forall>r. field (field d ''announcement'') ''type'' \<noteq> JStr ''general''
            \<and> \<not> truthy (field (field d ''announcement'') ''department'')
            \<and> truthy (field (field d ''announcement'') ''course'')
            \<and> to_str (field (field d ''announcement'') ''course'') = Inr r \<longrightarrow>
            announcement_created d =
              Inr [(ToRoom (''course_'' @ r), ''new_announcement'', field d ''announcement'')])
       \<and> (\<forall>err. field (field d ''announcement'') ''type'' \<noteq> JStr ''general''
            \<and> truthy (field (field d ''announcement'') ''department'')
            \<and> to_str (field (field d ''announcement'') ''department'') = Inl err \<longrightarrow>
            announcement_created d = Inl err)
       \<and> (\<forall>err. field (field d ''announcement'') ''type'' \<noteq> JStr ''general''
            \<and> \<not> truthy (field (field d ''announcement'') ''department'')
            \<and> truthy (field (field d ''announcement'') ''course'')
            \<and> to_str (field (field d ''announcement'') ''course'') = Inl err \<longrightarrow>
            announcement_created d = Inl err)
       \<and> (\<forall>r. (ToRoom (''course_'' @ r), ''new_announcement'', field d ''announcement'')
                 \<in> set (emitted_by (announcement_created d)) \<longrightarrow>
            field (field d ''announcement'') ''type'' \<noteq> JStr ''general''
            \<and> \<not> truthy (field (field d ''announcement'') ''department''))"
  using assms
  by (auto simp: announcement_created_def Let_def live_def split: if_splits sum.splits)

text \<open>Witness for C10: a general notice and an exam notice, both naming a department
  and a course, and an exam notice naming a course only.\<close>

theorem announcement_scope_precedence_witness:
  "\<not> nullish (notice ''general'') \<and> \<not> nullish (field (notice ''general'') ''announcement'')
   \<and> announcement_created (notice ''general'')
       = Inr [(ToAll, ''new_announcement'', field (notice ''general'') ''announcement'')]
   \<and> receives lecture ToAll (sock_id desk) \<and> receives lecture ToAll (sock_id phone)
   \<and> \<not> nullish (notice ''exam'') \<and> \<not> nullish (field (notice ''exam'') ''announcement'')
   \<and> truthy (field (field (notice ''exam'') ''announcement'') ''course'')
   \<and> to_str (field (field (notice ''exam'') ''announcement'') ''department'') = Inr ''Networks''
   \<and> announcement_created (notice ''exam'')
       = Inr [(ToRoom ''department_Networks'', ''new_announcement'',
               field (notice ''exam'') ''announcement'')]
   \<and> \<not> nullish course_notice \<and> \<not> nullish (field course_notice ''announcement'')
   \<and> to_str (field (field course_notice ''announcement'') ''course'') = Inr algo_id
   \<and> announcement_created course_notice
       = Inr [(ToRoom (''course_'' @ algo_id), ''new_announcement'',
               field course_notice ''announcement'')]"
proof -
  have a: "\<not> nullish (notice ''general'')" "\<not> nullish (field (notice ''general'') ''announcement'')"
    "\<not> nullish (notice ''exam'')" "\<not> nullish (field (notice ''exam'') ''announcement'')"
    "\<not> nullish course_notice" "\<not> nullish (field course_notice ''announcement'')"
    by (simp_all add: notice_def course_notice_def)
  have b: "field (field (notice ''general'') ''announcement'') ''type'' = JStr ''general''"
    "field (field (notice ''exam'') ''announcement'') ''type'' = JStr ''exam''"
    "field (field (notice ''exam'') ''announcement'') ''department'' = JStr ''Networks''"
    "field (field (notice ''exam'') ''announcement'') ''course'' = JStr algo_id"
    "field (field course_notice ''announcement'') ''type'' = JStr ''exam''"
    "field (field course_notice ''announcement'') ''department'' = JUndefined"
    "field (field course_notice ''announcement'') ''course'' = JStr algo_id"
    by (simp_all add: notice_def course_notice_def)
  have c: "algo_id \<noteq> []" by (simp add: algo_id_def)
  from announcement_scope_precedence[OF a(1,2), of lecture]
       announcement_scope_precedence[OF a(3,4), of lecture]
       announcement_scope_precedence[OF a(5,6), of lecture] a b c
  show ?thesis by (simp add: lecture_sockets)
qed

text \<open>Counterexample to C10 as stated: an exam notice whose department is an object
  with an own \<^verbatim>\<open>toString\<close> property. A department is set and the type is not
  \<^verbatim>\<open>general\<close>, yet the handler throws while it builds the room name: nothing is
  emitted, and the event ends the schedule with the error.\<close>

theorem announcement_unprintable_department_not_delivered_counterexample:
  "field (field notice_unprintable ''announcement'') ''type'' = JStr ''exam''
   \<and> truthy (field (field notice_unprintable ''announcement'') ''department'')
   \<and> announcement_created notice_unprintable = Inl TypeError
   \<and> emitted_by (announcement_created notice_unprintable) = []
   \<and> tick campus (Submit desk ''t3'' (AnnouncementCreated notice_unprintable)) (lecture, [])
       = Inl TypeError"
  by (simp add: announcement_created_def notice_unprintable_def unprintable_def Let_def)

end
